theory Spec2Isabelle
  imports Complex_Main "HOL-Library.Word"
begin

unbundle bit_operations_syntax

section \<open>The mirror file server of DPFS (dpfs\_aio): data model\<close>

text \<open>
  The handlers of the mirror implementation (\<^verbatim>\<open>fuser_mirror_*\<close>, \<^verbatim>\<open>do_lookup\<close>,
  \<^verbatim>\<open>forget_one\<close>) are embedded as functions on an explicit server state. One request is
  handled by one thread from beginning to end; what the operating system answers to each
  system call is an input of the handler. A system call either fails (it returns -1 and
  sets \<^verbatim>\<open>errno\<close>), written \<open>Inl errno\<close>, or succeeds with a value, written \<open>Inr v\<close>.
\<close>

type_synonym u64 = "64 word"
type_synonym u32 = "32 word"

text \<open>Error numbers and the two handler return codes, with their Linux values.\<close>

definition ENOENT :: int where "ENOENT = 2"
definition EIO :: int where "EIO = 5"
definition EWOULDBLOCK :: int where "EWOULDBLOCK = 11"
definition ENOMEM :: int where "ENOMEM = 12"
definition EACCES :: int where "EACCES = 13"
definition EINVAL :: int where "EINVAL = 22"
definition ENOTSUP :: int where "ENOTSUP = 95"

text \<open>\<^verbatim>\<open>#define FUSE_ROOT_ID 1\<close> (dpfs\_fuse.h).\<close>

definition FUSE_ROOT_ID :: u64 where "FUSE_ROOT_ID = 1"

text \<open>
  Modelled from the spec: \<^verbatim>\<open>struct inode\<close> is declared in mirror\_impl.h, which is not
  among the sources. The fields are the ones the handlers read and write, with the types
  of the data model (section 3 of the specification). The per-record mutex is not a field:
  every handler below releases each record mutex it takes before it returns.
\<close>

record inode =
  src_ino :: u64
  src_dev :: u64
  fd :: int
  nlookup :: u64
  nopen :: u32
  generation :: u64

text \<open>
  Modelled from the spec: \<^verbatim>\<open>struct fuser\<close> is declared in fuser.h, which is not among
  the sources. The inode table \<^verbatim>\<open>f->inodes\<close> is the pair of \<open>inodes\<close>, the index from a
  backing inode number to the address of its record, and \<open>heap\<close>, the records it owns by
  address; a node-id on the wire is such an address cast to \<^verbatim>\<open>fuse_ino_t\<close>. \<open>m_locked\<close>
  says whether the table mutex \<^verbatim>\<open>f->m\<close> is held, and \<open>open_fds\<close> is the set of
  descriptors open in the server process.
\<close>

record fuser =
  timeout :: real
  root_src_dev :: u64
  root :: inode
  inodes :: "u64 \<rightharpoonup> u64"
  heap :: "u64 \<rightharpoonup> inode"
  m_locked :: bool
  open_fds :: "int set"

text \<open>
  How a handler can stop without returning: \<^verbatim>\<open>exit\<close> with a status, blocking for ever
  on a mutex that is never released, or a dereference of a pointer that names no record.
\<close>

datatype halt = Exited int | Deadlock | Fault

text \<open>
  Modelled from the spec: \<^verbatim>\<open>ino_to_inodeptr\<close> and \<^verbatim>\<open>ino_to_fd\<close> (mirror\_impl.h, not
  among the sources). The node-id 1 denotes the root record; any other node-id is the
  address of a record; \<open>None\<close> is the null pointer that several handlers test for.
\<close>

definition ino_to_inodeptr :: "fuser \<Rightarrow> u64 \<Rightarrow> inode option" where
  "ino_to_inodeptr f ino = (if ino = FUSE_ROOT_ID then Some (root f) else heap f ino)"

definition ino_to_fd :: "fuser \<Rightarrow> u64 \<Rightarrow> int option" where
  "ino_to_fd f ino = map_option fd (ino_to_inodeptr f ino)"

text \<open>An assignment through the pointer \<^verbatim>\<open>i\<close> that \<^verbatim>\<open>ino_to_inodeptr\<close> returned.\<close>

definition inode_store :: "fuser \<Rightarrow> u64 \<Rightarrow> inode \<Rightarrow> fuser" where
  "inode_store f ino v =
     (if ino = FUSE_ROOT_ID then f\<lparr>root := v\<rparr> else f\<lparr>heap := (heap f)(ino \<mapsto> v)\<rparr>)"

text \<open>
  Modelled from the spec: \<^verbatim>\<open>inode_table_getsert\<close> and \<^verbatim>\<open>inode_table_erase\<close>
  (mirror\_impl.c, not among the sources). Section 4.1: get-or-insert returns the existing
  record if present, else constructs a new one with \<open>nlookup = 0\<close>, \<open>generation = 0\<close> and
  the descriptor unset (zero, which the handlers do not take for a live descriptor);
  erase removes the entry. The caller tests the result of get-or-insert for the null
  pointer, so the allocation of a new record can fail: \<open>alloc\<close> is the allocator's answer,
  the address of the new record or \<open>None\<close>.
\<close>

definition new_inode :: inode where
  "new_inode = \<lparr>src_ino = 0, src_dev = 0, fd = 0, nlookup = 0, nopen = 0, generation = 0\<rparr>"

definition inode_table_getsert :: "fuser \<Rightarrow> u64 \<Rightarrow> u64 option \<Rightarrow> (u64 \<times> fuser) option" where
  "inode_table_getsert f k alloc =
     (case inodes f k of
        Some a \<Rightarrow> Some (a, f)
      | None \<Rightarrow>
          (case alloc of
             None \<Rightarrow> None
           | Some a \<Rightarrow>
               Some (a, f\<lparr>inodes := (inodes f)(k \<mapsto> a), heap := (heap f)(a \<mapsto> new_inode)\<rparr>)))"

definition inode_table_erase :: "fuser \<Rightarrow> u64 \<Rightarrow> fuser" where
  "inode_table_erase f k =
     (case inodes f k of
        None \<Rightarrow> f
      | Some a \<Rightarrow> f\<lparr>inodes := (inodes f)(k := None), heap := (heap f)(a := None)\<rparr>)"

section \<open>Forget\<close>

text \<open>
  \<^verbatim>\<open>forget_one\<close> (lines 30 to 57). The record mutex is taken first; a lookup count
  that would go negative ends the process with \<^verbatim>\<open>exit(-1)\<close>. When the count reaches
  zero the table mutex is taken, the record is erased under its own \<^verbatim>\<open>src_ino\<close> and the
  table mutex is released.
\<close>

definition forget_one :: "fuser \<Rightarrow> u64 \<Rightarrow> u64 \<Rightarrow> halt + fuser" where
  "forget_one f ino n =
     (case ino_to_inodeptr f ino of
        None \<Rightarrow> Inl Fault
      | Some i \<Rightarrow>
          if n > nlookup i then Inl (Exited (- 1))
          else
            let i' = i\<lparr>nlookup := nlookup i - n\<rparr>;
                f1 = inode_store f ino i'
            in if nlookup i' = 0 then
                 (if m_locked f1 then Inl Deadlock
                  else Inr ((inode_table_erase (f1\<lparr>m_locked := True\<rparr>) (src_ino i'))
                              \<lparr>m_locked := False\<rparr>))
               else Inr f1)"

text \<open>The two fields of the forget request that the handler reads.\<close>

record fuse_in_header =
  nodeid :: u64

record fuse_forget_in =
  forget_nlookup :: u64

text \<open>\<^verbatim>\<open>fuser_mirror_forget\<close> (lines 653 to 661): no reply, the handler returns 0.\<close>

definition fuser_mirror_forget :: "fuser \<Rightarrow> fuse_in_header \<Rightarrow> fuse_forget_in \<Rightarrow> halt + (int \<times> fuser)" where
  "fuser_mirror_forget f in_hdr in_forget =
     (case forget_one f (nodeid in_hdr) (forget_nlookup in_forget) of
        Inl h \<Rightarrow> Inl h
      | Inr f' \<Rightarrow> Inr (0, f'))"

text \<open>
  A node-id is table-resident when it is the address of a record of the table that the
  index reaches under the record's own backing inode number.
\<close>

definition table_resident :: "fuser \<Rightarrow> u64 \<Rightarrow> inode \<Rightarrow> bool" where
  "table_resident f ino i =
     (ino \<noteq> FUSE_ROOT_ID \<and> heap f ino = Some i \<and> inodes f (src_ino i) = Some ino)"

section \<open>Lookup\<close>

text \<open>
  Open flags of \<^verbatim>\<open>fcntl.h\<close>, with the values of Linux's generic ABI. The handlers only
  combine and mask them.
\<close>

definition O_ACCMODE :: u32 where "O_ACCMODE = 3"
definition O_RDONLY :: u32 where "O_RDONLY = 0"
definition O_WRONLY :: u32 where "O_WRONLY = 1"
definition O_RDWR :: u32 where "O_RDWR = 2"
definition O_CREAT :: u32 where "O_CREAT = 0x40"
definition O_APPEND :: u32 where "O_APPEND = 0x400"
definition O_DIRECT :: u32 where "O_DIRECT = 0x4000"
definition O_NOFOLLOW :: u32 where "O_NOFOLLOW = 0x20000"
definition O_PATH :: u32 where "O_PATH = 0x200000"

text \<open>The fields of \<^verbatim>\<open>struct stat\<close> that the handlers read.\<close>

record stat =
  st_dev :: u64
  st_ino :: u64
  st_nlink :: u64
  st_mode :: u32

text \<open>\<^verbatim>\<open>struct fuse_entry_param\<close> (dpfs\_fuse.h); the timeouts are C doubles.\<close>

record fuse_entry_param =
  e_ino :: u64
  e_generation :: u64
  e_attr :: stat
  e_attr_timeout :: real
  e_entry_timeout :: real

definition zero_stat :: stat where
  "zero_stat = \<lparr>st_dev = 0, st_ino = 0, st_nlink = 0, st_mode = 0\<rparr>"

text \<open>The parameter after \<^verbatim>\<open>memset(e, 0, sizeof(*e))\<close>.\<close>

definition zero_entry :: fuse_entry_param where
  "zero_entry = \<lparr>e_ino = 0, e_generation = 0, e_attr = zero_stat,
                  e_attr_timeout = 0, e_entry_timeout = 0\<rparr>"

text \<open>
  What the system answers during one \<^verbatim>\<open>do_lookup\<close>: \<^verbatim>\<open>openat(dirfd, name, flags)\<close>,
  \<^verbatim>\<open>fstatat(fd, "", &st, AT_EMPTY_PATH | AT_SYMLINK_NOFOLLOW)\<close>, and the allocator
  inside \<^verbatim>\<open>inode_table_getsert\<close>.
\<close>

record lookup_sys =
  sys_openat :: "int \<Rightarrow> string \<Rightarrow> u32 \<Rightarrow> int + int"
  sys_fstatat :: "int \<Rightarrow> int + stat"
  sys_alloc :: "u64 option"

text \<open>
  \<^verbatim>\<open>do_lookup\<close> (lines 127 to 205). The result is the returned error number, the entry
  parameter \<^verbatim>\<open>*e\<close> and the state. The record pointer \<^verbatim>\<open>i\<close> is the address that
  get-or-insert returned, so the stores through it go to the heap at that address.
\<close>

definition do_lookup ::
  "fuser \<Rightarrow> u64 \<Rightarrow> string \<Rightarrow> lookup_sys \<Rightarrow> halt + (int \<times> fuse_entry_param \<times> fuser)" where
  "do_lookup f parent name sys =
     (let e = zero_entry\<lparr>e_attr_timeout := timeout f, e_entry_timeout := timeout f\<rparr> in
      case ino_to_fd f parent of
        None \<Rightarrow> Inl Fault
      | Some pfd \<Rightarrow>
          (case sys_openat sys pfd name (O_PATH OR O_NOFOLLOW) of
             Inl errno \<Rightarrow> Inr (errno, e, f)
           | Inr newfd \<Rightarrow>
               let f1 = f\<lparr>open_fds := insert newfd (open_fds f)\<rparr> in
               (case sys_fstatat sys newfd of
                  Inl saveerr \<Rightarrow> Inr (saveerr, e, f1\<lparr>open_fds := open_fds f1 - {newfd}\<rparr>)
                | Inr st \<Rightarrow>
                    let e1 = e\<lparr>e_attr := st\<rparr> in
                    if st_dev st \<noteq> root_src_dev f1 then Inr (ENOTSUP, e1, f1)
                    else if st_ino st = FUSE_ROOT_ID then Inr (EIO, e1, f1)
                    else if m_locked f1 then Inl Deadlock
                    else
                      let f2 = f1\<lparr>m_locked := True\<rparr> in
                      (case inode_table_getsert f2 (st_ino st) (sys_alloc sys) of
                         None \<Rightarrow> Inr (ENOMEM, e1, f2)
                       | Some (a, f3) \<Rightarrow>
                           (case heap f3 a of
                              None \<Rightarrow> Inl Fault
                            | Some i \<Rightarrow>
                                let e2 = e1\<lparr>e_ino := a, e_generation := generation i\<rparr> in
                                if fd i > 0 then
                                  Inr (0, e2,
                                    f3\<lparr>m_locked := False,
                                       heap := (heap f3)(a \<mapsto> i\<lparr>nlookup := nlookup i + 1\<rparr>),
                                       open_fds := open_fds f3 - {newfd}\<rparr>)
                                else
                                  Inr (0, e2,
                                    f3\<lparr>heap := (heap f3)(a \<mapsto>
                                          i\<lparr>src_ino := st_ino st, src_dev := st_dev st,
                                            nlookup := nlookup i + 1, fd := newfd\<rparr>),
                                       m_locked := False\<rparr>))))))"

text \<open>
  The reply header and the entry reply (\<^verbatim>\<open>linux/fuse.h\<close>). \<open>error\<close> is an
  \<^verbatim>\<open>int32_t\<close> that holds a negated error number.
\<close>

record fuse_out_header =
  len :: u32
  error :: int

record fuse_entry_out =
  eo_nodeid :: u64
  eo_generation :: u64
  entry_valid :: real
  attr_valid :: real
  eo_attr :: stat

text \<open>
  Modelled from the spec: \<^verbatim>\<open>fuse_ll_reply_entry\<close> is only declared in dpfs\_fuse.h. It
  is the wire encoder of section 6: it writes the entry parameter into the reply struct
  (node-id, generation, attributes, the two validity timeouts, here kept in seconds) and
  adds the size of the payload to the reply length; the reply is a success, it does not
  touch \<open>error\<close>, and it returns 0.
\<close>

definition sizeof_fuse_entry_out :: u32 where "sizeof_fuse_entry_out = 128"

definition fuse_ll_reply_entry ::
  "fuse_out_header \<Rightarrow> fuse_entry_out \<Rightarrow> fuse_entry_param \<Rightarrow> int \<times> fuse_out_header \<times> fuse_entry_out" where
  "fuse_ll_reply_entry out_hdr out_entry e =
     (0, out_hdr\<lparr>len := len out_hdr + sizeof_fuse_entry_out\<rparr>,
      out_entry\<lparr>eo_nodeid := e_ino e, eo_generation := e_generation e,
                entry_valid := e_entry_timeout e, attr_valid := e_attr_timeout e,
                eo_attr := e_attr e\<rparr>)"

text \<open>\<^verbatim>\<open>fuser_mirror_lookup\<close> (lines 207 to 229).\<close>

definition fuser_mirror_lookup ::
  "fuser \<Rightarrow> fuse_in_header \<Rightarrow> string \<Rightarrow> fuse_out_header \<Rightarrow> fuse_entry_out \<Rightarrow> lookup_sys
     \<Rightarrow> halt + (int \<times> fuse_out_header \<times> fuse_entry_out \<times> fuser)" where
  "fuser_mirror_lookup f in_hdr in_name out_hdr out_entry sys =
     (case do_lookup f (nodeid in_hdr) in_name sys of
        Inl h \<Rightarrow> Inl h
      | Inr (err, e, f') \<Rightarrow>
          if err = ENOENT then
            (case fuse_ll_reply_entry out_hdr out_entry
                    (e\<lparr>e_attr_timeout := timeout f, e_entry_timeout := timeout f,
                       e_ino := 0, e_attr := (e_attr e)\<lparr>st_ino := 0\<rparr>\<rparr>) of
               (r, h, oe) \<Rightarrow> Inr (r, h, oe, f'))
          else if err \<noteq> 0 then Inr (0, out_hdr\<lparr>error := - err\<rparr>, out_entry, f')
          else
            (case fuse_ll_reply_entry out_hdr out_entry e of
               (r, h, oe) \<Rightarrow> Inr (r, h, oe, f')))"

section \<open>Open and create\<close>

text \<open>The decimal digits that \<^verbatim>\<open>sprintf\<close> prints for \<^verbatim>\<open>%i\<close>.\<close>

fun show_nat :: "nat \<Rightarrow> string" where
  "show_nat n =
     (if n < 10 then [''0123456789'' ! n]
      else show_nat (n div 10) @ [''0123456789'' ! (n mod 10)])"

declare show_nat.simps [simp del]

definition show_int :: "int \<Rightarrow> string" where
  "show_int k = (if k < 0 then CHR ''-'' # show_nat (nat (- k)) else show_nat (nat k))"

record fuse_open_in =
  open_in_flags :: u32

text \<open>The fields of \<^verbatim>\<open>struct fuse_file_info\<close> that the handlers set.\<close>

record fuse_file_info =
  fi_flags :: u32
  fi_fh :: u64
  fi_keep_cache :: bool
  fi_noflush :: bool

record fuse_open_out =
  oo_fh :: u64
  oo_keep_cache :: bool
  oo_noflush :: bool

text \<open>
  Modelled from the spec: \<^verbatim>\<open>fuse_ll_reply_open\<close> is only declared in dpfs\_fuse.h. It
  stores the file handle (and the cache hints) of the file info in the reply, adds the size
  of the payload to the reply length, leaves \<open>error\<close> alone and returns 0.
\<close>

definition sizeof_fuse_open_out :: u32 where "sizeof_fuse_open_out = 16"

definition fuse_ll_reply_open ::
  "fuse_out_header \<Rightarrow> fuse_open_out \<Rightarrow> fuse_file_info \<Rightarrow> int \<times> fuse_out_header \<times> fuse_open_out" where
  "fuse_ll_reply_open out_hdr out_open fi =
     (0, out_hdr\<lparr>len := len out_hdr + sizeof_fuse_open_out\<rparr>,
      out_open\<lparr>oo_fh := fi_fh fi, oo_keep_cache := fi_keep_cache fi,
               oo_noflush := fi_noflush fi\<rparr>)"

text \<open>
  \<^verbatim>\<open>fuser_mirror_open\<close> (lines 475 to 528). \<open>sys_open\<close> is what \<^verbatim>\<open>open(path, flags)\<close>
  answers. The handler starts from \<^verbatim>\<open>fi.flags = O_RDWR | O_DIRECT\<close>; it does not read
  \<^verbatim>\<open>in_open\<close>.
\<close>

definition fuser_mirror_open ::
  "fuser \<Rightarrow> fuse_in_header \<Rightarrow> fuse_open_in \<Rightarrow> fuse_out_header \<Rightarrow> fuse_open_out
     \<Rightarrow> (string \<Rightarrow> u32 \<Rightarrow> int + int) \<Rightarrow> int \<times> fuse_out_header \<times> fuse_open_out \<times> fuser" where
  "fuser_mirror_open f in_hdr in_open out_hdr out_open sys_open =
     (let flags0 = O_RDWR OR O_DIRECT in
      case ino_to_inodeptr f (nodeid in_hdr) of
        None \<Rightarrow> (0, out_hdr\<lparr>error := - EINVAL\<rparr>, out_open, f)
      | Some i \<Rightarrow>
          let flags1 = (if timeout f \<noteq> 0 \<and> (flags0 AND O_ACCMODE) = O_WRONLY
                        then (flags0 AND NOT O_ACCMODE) OR O_RDWR else flags0);
              flags2 = (if timeout f \<noteq> 0 \<and> (flags1 AND O_APPEND) \<noteq> 0
                        then flags1 AND NOT O_APPEND else flags1)
          in (case sys_open (''/proc/self/fd/'' @ show_int (fd i)) (flags2 AND NOT O_NOFOLLOW) of
               Inl err \<Rightarrow> (0, out_hdr\<lparr>error := - err\<rparr>, out_open, f)
             | Inr newfd \<Rightarrow>
                 let f1 = f\<lparr>open_fds := insert newfd (open_fds f)\<rparr>;
                     f2 = inode_store f1 (nodeid in_hdr) (i\<lparr>nopen := nopen i + 1\<rparr>);
                     fi = \<lparr>fi_flags = flags2, fi_fh = word_of_int newfd,
                           fi_keep_cache = (timeout f \<noteq> 0),
                           fi_noflush = (timeout f = 0 \<and> (flags2 AND O_ACCMODE) = O_RDONLY)\<rparr>
                 in (case fuse_ll_reply_open out_hdr out_open fi of
                       (r, h, oo) \<Rightarrow> (r, h, oo, f2))))"

record fuse_create_in =
  create_flags :: u32
  create_mode :: u32

text \<open>
  Modelled from the spec: \<^verbatim>\<open>fuse_ll_reply_create\<close> is only declared in dpfs\_fuse.h. It
  writes the entry and the open reply one after the other.
\<close>

definition fuse_ll_reply_create ::
  "fuse_out_header \<Rightarrow> fuse_entry_out \<Rightarrow> fuse_open_out \<Rightarrow> fuse_entry_param \<Rightarrow> fuse_file_info
     \<Rightarrow> int \<times> fuse_out_header \<times> fuse_entry_out \<times> fuse_open_out" where
  "fuse_ll_reply_create out_hdr out_entry out_open e fi =
     (case fuse_ll_reply_entry out_hdr out_entry e of
        (r, h, oe) \<Rightarrow>
          (case fuse_ll_reply_open h out_open fi of (r', h', oo) \<Rightarrow> (r', h', oe, oo)))"

text \<open>
  \<^verbatim>\<open>fuser_mirror_create\<close> (lines 587 to 629). \<open>sys_creat\<close> is what
  \<^verbatim>\<open>openat(dirfd, name, flags, mode)\<close> answers. Both error branches store \<^verbatim>\<open>err\<close>
  itself in the reply header.
\<close>

definition fuser_mirror_create ::
  "fuser \<Rightarrow> fuse_in_header \<Rightarrow> fuse_create_in \<Rightarrow> string \<Rightarrow> fuse_out_header \<Rightarrow> fuse_entry_out
     \<Rightarrow> fuse_open_out \<Rightarrow> (int \<Rightarrow> string \<Rightarrow> u32 \<Rightarrow> u32 \<Rightarrow> int + int) \<Rightarrow> lookup_sys
     \<Rightarrow> halt + (int \<times> fuse_out_header \<times> fuse_entry_out \<times> fuse_open_out \<times> fuser)" where
  "fuser_mirror_create f in_hdr in_create in_name out_hdr out_entry out_open sys_creat sys =
     (case ino_to_inodeptr f (nodeid in_hdr) of
        None \<Rightarrow> Inr (0, out_hdr\<lparr>error := - EINVAL\<rparr>, out_entry, out_open, f)
      | Some ip \<Rightarrow>
          (case sys_creat (fd ip) in_name ((create_flags in_create OR O_CREAT) AND NOT O_NOFOLLOW)
                  (create_mode in_create) of
             Inl err \<Rightarrow> Inr (0, out_hdr\<lparr>error := err\<rparr>, out_entry, out_open, f)
           | Inr newfd \<Rightarrow>
               let f1 = f\<lparr>open_fds := insert newfd (open_fds f)\<rparr>;
                   fi = \<lparr>fi_flags = create_flags in_create, fi_fh = word_of_int newfd,
                         fi_keep_cache = False, fi_noflush = False\<rparr>
               in (case do_lookup f1 (nodeid in_hdr) in_name sys of
                     Inl h \<Rightarrow> Inl h
                   | Inr (err, e, f2) \<Rightarrow>
                       if err \<noteq> 0 then Inr (0, out_hdr\<lparr>error := err\<rparr>, out_entry, out_open, f2)
                       else
                         (case ino_to_inodeptr f2 (e_ino e) of
                            None \<Rightarrow> Inl Fault
                          | Some i \<Rightarrow>
                              let f3 = inode_store f2 (e_ino e) (i\<lparr>nopen := nopen i + 1\<rparr>) in
                              (case fuse_ll_reply_create out_hdr out_entry out_open e fi of
                                 (r, h, oe, oo) \<Rightarrow> Inr (r, h, oe, oo, f3))))))"

section \<open>Asynchronous read and write\<close>

record fuse_read_in =
  read_fh :: u64
  read_offset :: u64
  read_size :: u32

record fuse_write_in =
  write_fh :: u64
  write_offset :: u64
  write_size :: u32

text \<open>The fields of the control block \<^verbatim>\<open>struct iocb\<close> that the handlers fill in.\<close>

record iocb =
  aio_data :: u64
  aio_fildes :: u32
  aio_lio_opcode :: "16 word"
  aio_reqprio :: "16 word"
  aio_buf :: u64
  aio_nbytes :: u64
  aio_offset :: u64

definition IOCB_CMD_PREADV :: "16 word" where "IOCB_CMD_PREADV = 7"
definition IOCB_CMD_PWRITEV :: "16 word" where "IOCB_CMD_PWRITEV = 8"

text \<open>
  \<^verbatim>\<open>fuser_mirror_read\<close> (lines 699 to 728) and \<^verbatim>\<open>fuser_mirror_write\<close> (lines 730 to
  761). \<open>cb\<close> is what \<^verbatim>\<open>mpool_alloc\<close> answers, the address of the callback record or
  the null pointer, which the handler dereferences unchecked; \<open>iov\<close> and \<open>iovcnt\<close> are
  the address and the length of the vector; \<open>sys_io_submit\<close> is what
  \<^verbatim>\<open>io_submit(ctx, 1, &iocb)\<close> answers. The callback record itself is read by the
  completion path only.
\<close>

definition fuser_mirror_read ::
  "fuse_read_in \<Rightarrow> fuse_out_header \<Rightarrow> u64 \<Rightarrow> int \<Rightarrow> u64 option \<Rightarrow> (iocb \<Rightarrow> int + int)
     \<Rightarrow> halt + (int \<times> fuse_out_header)" where
  "fuser_mirror_read in_read out_hdr iov iovcnt cb sys_io_submit =
     (case cb of
        None \<Rightarrow> Inl Fault
      | Some rw_cb_data \<Rightarrow>
          (case sys_io_submit
                  \<lparr>aio_data = rw_cb_data, aio_fildes = ucast (read_fh in_read),
                   aio_lio_opcode = IOCB_CMD_PREADV, aio_reqprio = 0, aio_buf = iov,
                   aio_nbytes = word_of_int iovcnt, aio_offset = read_offset in_read\<rparr> of
             Inl errno \<Rightarrow> Inr (0, out_hdr\<lparr>error := - errno\<rparr>)
           | Inr n \<Rightarrow> Inr (EWOULDBLOCK, out_hdr)))"

definition fuser_mirror_write ::
  "fuse_write_in \<Rightarrow> fuse_out_header \<Rightarrow> u64 \<Rightarrow> int \<Rightarrow> u64 option \<Rightarrow> (iocb \<Rightarrow> int + int)
     \<Rightarrow> halt + (int \<times> fuse_out_header)" where
  "fuser_mirror_write in_write out_hdr iov iovcnt cb sys_io_submit =
     (case cb of
        None \<Rightarrow> Inl Fault
      | Some rw_cb_data \<Rightarrow>
          (case sys_io_submit
                  \<lparr>aio_data = rw_cb_data, aio_fildes = ucast (write_fh in_write),
                   aio_lio_opcode = IOCB_CMD_PWRITEV, aio_reqprio = 0, aio_buf = iov,
                   aio_nbytes = word_of_int iovcnt, aio_offset = write_offset in_write\<rparr> of
             Inl errno \<Rightarrow> Inr (0, out_hdr\<lparr>error := - errno\<rparr>)
           | Inr n \<Rightarrow> Inr (EWOULDBLOCK, out_hdr)))"

section \<open>Directory reading\<close>

record dirent =
  d_ino :: u64
  d_off :: u64
  d_type :: "8 word"
  d_name :: string

text \<open>
  The directory handle: the stream \<^verbatim>\<open>d->dp\<close> is the list of answers that the calls of
  \<^verbatim>\<open>readdir\<close> will get, \<open>offset\<close> is the cached offset.
\<close>

record directory =
  offset :: u64

text \<open>\<^verbatim>\<open>is_dot_or_dotdot\<close> (lines 376 to 379).\<close>

definition is_dot_or_dotdot :: "string \<Rightarrow> bool" where
  "is_dot_or_dotdot name = (name = ''.'' \<or> name = ''..'')"

text \<open>
  One entry of the reply buffer: what the handler passed to the encoder
  (\<^verbatim>\<open>fuse_add_direntry\<close> or \<^verbatim>\<open>fuse_add_direntry_plus\<close>, only declared in
  dpfs\_fuse.h), and the number of bytes the encoder said it wrote.
\<close>

record direntry =
  de_name :: string
  de_param :: fuse_entry_param
  de_off :: u64
  de_size :: u64

text \<open>
  What happens around one call of \<^verbatim>\<open>readdir\<close>: its answer (the null pointer with
  \<^verbatim>\<open>errno\<close>, where 0 is the end of the stream, or an entry), the answers to the system
  calls of the lookup of that entry, and the size the encoder returns for it (0 when the
  entry does not fit).
\<close>

record readdir_sys =
  rd_result :: "int + dirent"
  rd_lookup :: lookup_sys
  rd_written :: u64

text \<open>The variables of the loop: the server state, \<^verbatim>\<open>*d\<close>, \<^verbatim>\<open>rem\<close>, \<^verbatim>\<open>count\<close>, the buffer.\<close>

record readdir_st =
  rs_f :: fuser
  rs_d :: directory
  rs_rem :: u32
  rs_count :: int
  rs_iov :: "direntry list"

datatype loop_ctl = Continue readdir_st | Leave int readdir_st | Stop halt

text \<open>
  The body of the loop (lines 407 to 452): \<open>Continue\<close> is the next iteration, \<open>Leave err\<close>
  leaves the loop with that value of \<^verbatim>\<open>err\<close> (a \<^verbatim>\<open>break\<close> leaves with 0, as the
  assignment after the loop sets it). Without \<^verbatim>\<open>plus\<close> the encoder gets an entry
  parameter of which only \<^verbatim>\<open>attr.st_ino\<close> and \<^verbatim>\<open>attr.st_mode\<close> are assigned.
\<close>

definition readdir_entry :: "bool \<Rightarrow> u64 \<Rightarrow> readdir_sys \<Rightarrow> readdir_st \<Rightarrow> loop_ctl" where
  "readdir_entry plus_p ino s st =
     (case rd_result s of
        Inl errno \<Rightarrow> if errno \<noteq> 0 then Leave errno st else Leave 0 st
      | Inr entry \<Rightarrow>
          let st1 = st\<lparr>rs_d := (rs_d st)\<lparr>offset := d_off entry\<rparr>\<rparr> in
          if is_dot_or_dotdot (d_name entry) then Continue st1
          else if plus_p then
            (case do_lookup (rs_f st1) ino (d_name entry) (rd_lookup s) of
               Inl h \<Rightarrow> Stop h
             | Inr (err, e, f') \<Rightarrow>
                 if err \<noteq> 0 then Leave err (st1\<lparr>rs_f := f'\<rparr>)
                 else if rd_written s = 0 then
                   (case forget_one f' (e_ino e) 1 of
                      Inl h \<Rightarrow> Stop h
                    | Inr f'' \<Rightarrow> Leave 0 (st1\<lparr>rs_f := f''\<rparr>))
                 else
                   Continue (st1\<lparr>rs_f := f',
                                 rs_rem := rs_rem st1 - ucast (rd_written s),
                                 rs_count := rs_count st1 + 1,
                                 rs_iov := rs_iov st1 @
                                   [\<lparr>de_name = d_name entry, de_param = e,
                                     de_off = d_off entry, de_size = rd_written s\<rparr>]\<rparr>))
          else
            let e = zero_entry\<lparr>e_attr := zero_stat\<lparr>st_ino := d_ino entry,
                                    st_mode := push_bit 12 (ucast (d_type entry))\<rparr>\<rparr> in
            if rd_written s = 0 then Leave 0 st1
            else
              Continue (st1\<lparr>rs_rem := rs_rem st1 - ucast (rd_written s),
                            rs_count := rs_count st1 + 1,
                            rs_iov := rs_iov st1 @
                              [\<lparr>de_name = d_name entry, de_param = e,
                                de_off = d_off entry, de_size = rd_written s\<rparr>]\<rparr>))"

text \<open>
  The loop \<^verbatim>\<open>while (1)\<close> over the answers of the stream; when they are used up the
  stream is at its end (\<^verbatim>\<open>readdir\<close> returns the null pointer and leaves \<^verbatim>\<open>errno\<close> 0).
\<close>

fun readdir_loop ::
  "bool \<Rightarrow> u64 \<Rightarrow> readdir_sys list \<Rightarrow> readdir_st \<Rightarrow> halt + (int \<times> readdir_st)" where
  "readdir_loop plus_p ino [] st = Inr (0, st)"
| "readdir_loop plus_p ino (s # ss) st =
     (case readdir_entry plus_p ino s st of
        Continue st' \<Rightarrow> readdir_loop plus_p ino ss st'
      | Leave err st' \<Rightarrow> Inr (err, st')
      | Stop h \<Rightarrow> Inl h)"

text \<open>
  \<^verbatim>\<open>fuser_mirror_readdir\<close> (lines 381 to 473). When the requested offset is not the
  cached one the handler calls \<^verbatim>\<open>seekdir\<close> and caches the requested offset; the answers
  of the stream after that are the input \<open>stream\<close>. The result is the return value, the
  reply header, and the loop variables at the end (the state, the directory handle and the
  reply buffer among them).
\<close>

definition fuser_mirror_readdir ::
  "fuser \<Rightarrow> fuse_in_header \<Rightarrow> fuse_read_in \<Rightarrow> bool \<Rightarrow> fuse_out_header \<Rightarrow> directory
     \<Rightarrow> readdir_sys list \<Rightarrow> halt + (int \<times> fuse_out_header \<times> readdir_st)" where
  "fuser_mirror_readdir f in_hdr in_read plus_p out_hdr d stream =
     (case ino_to_inodeptr f (nodeid in_hdr) of
        None \<Rightarrow> Inl Fault
      | Some i \<Rightarrow>
          let d1 = (if read_offset in_read \<noteq> offset d then d\<lparr>offset := read_offset in_read\<rparr>
                    else d)
          in (case readdir_loop plus_p (nodeid in_hdr) stream
                     \<lparr>rs_f = f, rs_d = d1, rs_rem = read_size in_read, rs_count = 0,
                      rs_iov = []\<rparr> of
                Inl h \<Rightarrow> Inl h
              | Inr (err, st) \<Rightarrow>
                  if err \<noteq> 0 \<and> rs_rem st = read_size in_read then
                    Inr (0, out_hdr\<lparr>error := - err\<rparr>, st)
                  else
                    Inr (0, out_hdr\<lparr>len := len out_hdr + (read_size in_read - rs_rem st)\<rparr>, st)))"

text \<open>
  What a stream holds, said of the answers alone. A step is written when it is an entry
  other than \<^verbatim>\<open>.\<close> and \<^verbatim>\<open>..\<close>; \<open>stream_bytes\<close> adds up the sizes that the encoder
  answers for the written steps of a stream.
\<close>

definition is_written :: "readdir_sys \<Rightarrow> bool" where
  "is_written s =
     (case rd_result s of Inl errno \<Rightarrow> False | Inr entry \<Rightarrow> \<not> is_dot_or_dotdot (d_name entry))"

definition step_name :: "readdir_sys \<Rightarrow> string" where
  "step_name s = (case rd_result s of Inl errno \<Rightarrow> [] | Inr entry \<Rightarrow> d_name entry)"

definition written_entries :: "readdir_sys list \<Rightarrow> readdir_sys list" where
  "written_entries ss = filter is_written ss"

definition stream_bytes :: "readdir_sys list \<Rightarrow> nat" where
  "stream_bytes ss = sum_list (map (\<lambda>s. unat (rd_written s)) (written_entries ss))"

text \<open>
  The system calls of a lookup of \<open>name\<close> succeed, whatever the directory descriptor, and
  find the backing inode \<open>k\<close>, which is not the reserved root id, on the device \<open>dev\<close>.
\<close>

definition lookup_reaches :: "u64 \<Rightarrow> lookup_sys \<Rightarrow> string \<Rightarrow> u64 \<Rightarrow> bool" where
  "lookup_reaches dev sys name k =
     (\<exists>newfd st. (\<forall>dirfd. sys_openat sys dirfd name (O_PATH OR O_NOFOLLOW) = Inr newfd) \<and>
        sys_fstatat sys newfd = Inr st \<and> st_dev st = dev \<and> st_ino st = k \<and>
        k \<noteq> FUSE_ROOT_ID)"

text \<open>
  A lookup of \<open>name\<close> fails with \<open>err\<close> before it reaches the table: \<^verbatim>\<open>openat\<close> fails
  with it, \<^verbatim>\<open>fstatat\<close> fails with it, the device is not \<open>dev\<close> (\<^verbatim>\<open>ENOTSUP\<close>), or the
  backing inode is the reserved root id (\<^verbatim>\<open>EIO\<close>).
\<close>

definition lookup_fails :: "u64 \<Rightarrow> lookup_sys \<Rightarrow> string \<Rightarrow> int \<Rightarrow> bool" where
  "lookup_fails dev sys name err =
     ((\<forall>dirfd. sys_openat sys dirfd name (O_PATH OR O_NOFOLLOW) = Inl err) \<or>
      (\<exists>newfd. (\<forall>dirfd. sys_openat sys dirfd name (O_PATH OR O_NOFOLLOW) = Inr newfd) \<and>
         (sys_fstatat sys newfd = Inl err \<or>
          (\<exists>st. sys_fstatat sys newfd = Inr st \<and>
             (st_dev st \<noteq> dev \<and> err = ENOTSUP \<or>
              st_dev st = dev \<and> st_ino st = FUSE_ROOT_ID \<and> err = EIO)))))"

text \<open>
  The step is an entry whose lookup finds the backing inode \<open>k\<close>.
\<close>

definition resolves_to :: "u64 \<Rightarrow> readdir_sys \<Rightarrow> u64 \<Rightarrow> bool" where
  "resolves_to dev s k =
     (case rd_result s of
        Inl errno \<Rightarrow> False
      | Inr entry \<Rightarrow> lookup_reaches dev (rd_lookup s) (d_name entry) k)"

text \<open>
  A step that the loop takes and goes on: the entry \<^verbatim>\<open>.\<close> or \<^verbatim>\<open>..\<close>, or an entry that
  the encoder has room for and, with \<^verbatim>\<open>plus\<close>, whose lookup succeeds (its system calls
  succeed and the allocator can give a record).
\<close>

definition accepted :: "bool \<Rightarrow> u64 \<Rightarrow> readdir_sys \<Rightarrow> bool" where
  "accepted plus_p dev s =
     (case rd_result s of
        Inl errno \<Rightarrow> False
      | Inr entry \<Rightarrow>
          is_dot_or_dotdot (d_name entry) \<or>
          rd_written s \<noteq> 0 \<and>
          (if plus_p then (\<exists>k. lookup_reaches dev (rd_lookup s) (d_name entry) k) \<and>
                          sys_alloc (rd_lookup s) \<noteq> None
           else True))"

text \<open>
  The step at which the error \<open>err\<close> occurs, after the steps \<open>goods\<close> on the server \<open>f\<close>:
  \<^verbatim>\<open>readdir\<close> fails with \<open>err\<close>, or, with \<^verbatim>\<open>plus\<close>, the lookup of an entry fails with
  it, either before the table or with \<^verbatim>\<open>ENOMEM\<close> (the allocator fails for a backing inode
  that has no record in the table of \<open>f\<close> and that no earlier step resolves to).
\<close>

definition failing :: "bool \<Rightarrow> fuser \<Rightarrow> readdir_sys list \<Rightarrow> readdir_sys \<Rightarrow> int \<Rightarrow> bool" where
  "failing plus_p f goods bad err =
     (err \<noteq> 0 \<and>
      (rd_result bad = Inl err \<or>
       plus_p \<and>
       (\<exists>entry. rd_result bad = Inr entry \<and> \<not> is_dot_or_dotdot (d_name entry) \<and>
          (lookup_fails (root_src_dev f) (rd_lookup bad) (d_name entry) err \<or>
           err = ENOMEM \<and> sys_alloc (rd_lookup bad) = None \<and>
           (\<exists>k. lookup_reaches (root_src_dev f) (rd_lookup bad) (d_name entry) k \<and>
              inodes f k = None \<and>
              list_all (\<lambda>s. \<not> resolves_to (root_src_dev f) s k) goods)))))"

text \<open>
  What the lookups of one readdirplus keep: the directory is known, the table mutex is
  free, every index entry has its record, and the root device is \<open>dev\<close>.
\<close>

definition plus_inv :: "u64 \<Rightarrow> u64 \<Rightarrow> fuser \<Rightarrow> bool" where
  "plus_inv dev ino f =
     (ino_to_inodeptr f ino \<noteq> None \<and> \<not> m_locked f \<and> ran (inodes f) \<subseteq> dom (heap f) \<and>
      root_src_dev f = dev)"

section \<open>A running example\<close>

text \<open>
  A server that mirrors a tree on device 7 with a metadata timeout of one second. Its table
  holds one record, for the backing inode 42, at the address 4096, looked up twice.
\<close>

definition ex_inode :: inode where
  "ex_inode = \<lparr>src_ino = 42, src_dev = 7, fd = 5, nlookup = 2, nopen = 0, generation = 0\<rparr>"

definition ex_fuser :: fuser where
  "ex_fuser = \<lparr>timeout = 1, root_src_dev = 7, root = new_inode\<lparr>fd := 3\<rparr>,
               inodes = [42 \<mapsto> 4096], heap = [4096 \<mapsto> ex_inode],
               m_locked = False, open_fds = {3, 5}\<rparr>"

text \<open>A reply header as the handlers receive it, an empty entry reply and an empty open reply.\<close>

definition ex_hdr :: fuse_out_header where
  "ex_hdr = \<lparr>len = 16, error = 0\<rparr>"

definition ex_entry_out :: fuse_entry_out where
  "ex_entry_out = \<lparr>eo_nodeid = 0, eo_generation = 0, entry_valid = 0, attr_valid = 0,
                    eo_attr = zero_stat\<rparr>"

definition ex_open_out :: fuse_open_out where
  "ex_open_out = \<lparr>oo_fh = 0, oo_keep_cache = False, oo_noflush = False\<rparr>"

text \<open>A system that gives the same answers whatever the arguments of the calls.\<close>

definition ex_sys :: "(int + int) \<Rightarrow> (int + stat) \<Rightarrow> u64 option \<Rightarrow> lookup_sys" where
  "ex_sys o_res s_res a =
     \<lparr>sys_openat = (\<lambda>dirfd name flags. o_res), sys_fstatat = (\<lambda>fd. s_res), sys_alloc = a\<rparr>"

text \<open>
  The flags that the specification has \<^verbatim>\<open>open\<close> use: the flags of the request, with
  write-only access and \<^verbatim>\<open>O_APPEND\<close> rewritten when the metadata timeout \<open>t\<close> is
  non-zero, and \<^verbatim>\<open>O_NOFOLLOW\<close> dropped. The handler is compared with them below.
\<close>

definition claimed_open_flags :: "real \<Rightarrow> u32 \<Rightarrow> u32" where
  "claimed_open_flags t fl =
     (let fl1 = (if t \<noteq> 0 \<and> (fl AND O_ACCMODE) = O_WRONLY
                 then (fl AND NOT O_ACCMODE) OR O_RDWR else fl);
          fl2 = (if t \<noteq> 0 \<and> (fl1 AND O_APPEND) \<noteq> 0 then fl1 AND NOT O_APPEND else fl1)
      in fl2 AND NOT O_NOFOLLOW)"

text \<open>
  What \<^verbatim>\<open>open\<close> answers when descriptor 5 names a file that the server may read but
  not write: descriptor 9 for read-only access through \<^verbatim>\<open>/proc/self/fd/5\<close>,
  \<^verbatim>\<open>EACCES\<close> for any other access, and \<^verbatim>\<open>ENOENT\<close> for any other path.
\<close>

definition ro_open :: "string \<Rightarrow> u32 \<Rightarrow> int + int" where
  "ro_open path fl =
     (if path \<noteq> ''/proc/self/fd/5'' then Inl ENOENT
      else if (fl AND O_ACCMODE) = O_RDONLY then Inr 9 else Inl EACCES)"

text \<open>
  Scenario A of the specification: the same server with an empty table, the attributes of
  the file \<^verbatim>\<open>hello\<close> with backing inode 42, and the state and the entry after a first
  lookup of it that opened descriptor 9 and got the record allocated at address 4096.
\<close>

definition ex_stat :: stat where
  "ex_stat = \<lparr>st_dev = 7, st_ino = 42, st_nlink = 1, st_mode = 0\<rparr>"

definition ex_empty :: fuser where
  "ex_empty = \<lparr>timeout = 1, root_src_dev = 7, root = new_inode\<lparr>fd := 3\<rparr>,
               inodes = Map.empty, heap = Map.empty, m_locked = False, open_fds = {3}\<rparr>"

definition ex_rec :: inode where
  "ex_rec = \<lparr>src_ino = 42, src_dev = 7, fd = 9, nlookup = 1, nopen = 0, generation = 0\<rparr>"

definition ex_once :: fuser where
  "ex_once = ex_empty\<lparr>inodes := [42 \<mapsto> 4096], heap := [4096 \<mapsto> ex_rec], open_fds := {9, 3}\<rparr>"

definition ex_e :: fuse_entry_param where
  "ex_e = \<lparr>e_ino = 4096, e_generation = 0, e_attr = ex_stat, e_attr_timeout = 1,
           e_entry_timeout = 1\<rparr>"

text \<open>
  A directory stream: the entry \<^verbatim>\<open>hello\<close> (the allocator answers \<open>a\<close> and the encoder
  writes \<open>w\<close> bytes for it), and a call of \<^verbatim>\<open>readdir\<close> that fails with \<^verbatim>\<open>EIO\<close>; the
  loop variables at the start of a request for 4096 bytes at offset 0.
\<close>

definition ex_dirent :: dirent where
  "ex_dirent = \<lparr>d_ino = 42, d_off = 1, d_type = 8, d_name = ''hello''\<rparr>"

definition ex_step :: "u64 option \<Rightarrow> u64 \<Rightarrow> readdir_sys" where
  "ex_step a w = \<lparr>rd_result = Inr ex_dirent, rd_lookup = ex_sys (Inr 9) (Inr ex_stat) a,
                  rd_written = w\<rparr>"

definition ex_fail :: readdir_sys where
  "ex_fail = \<lparr>rd_result = Inl EIO, rd_lookup = ex_sys (Inl EIO) (Inl EIO) None, rd_written = 0\<rparr>"

definition ex_rs :: "fuser \<Rightarrow> readdir_st" where
  "ex_rs f = \<lparr>rs_f = f, rs_d = \<lparr>offset = 0\<rparr>, rs_rem = 4096, rs_count = 0, rs_iov = []\<rparr>"

definition ex_read_in :: fuse_read_in where
  "ex_read_in = \<lparr>read_fh = 0, read_offset = 0, read_size = 4096\<rparr>"

text \<open>
  The server of the running example with the lookup count of its record set to \<open>n\<close>.
\<close>

definition ex_counted :: "u64 \<Rightarrow> fuser" where
  "ex_counted n = ex_fuser\<lparr>heap := [4096 \<mapsto> ex_inode\<lparr>nlookup := n\<rparr>]\<rparr>"

text \<open>
  Two more steps of a stream: the entry \<^verbatim>\<open>.\<close>, and an entry \<^verbatim>\<open>secret\<close> whose
  \<^verbatim>\<open>openat\<close> fails with \<^verbatim>\<open>EACCES\<close>.
\<close>

definition ex_dot :: readdir_sys where
  "ex_dot = \<lparr>rd_result = Inr \<lparr>d_ino = 2, d_off = 0, d_type = 4, d_name = ''.''\<rparr>,
             rd_lookup = ex_sys (Inl EIO) (Inl EIO) None, rd_written = 0\<rparr>"

definition ex_denied :: readdir_sys where
  "ex_denied = \<lparr>rd_result = Inr \<lparr>d_ino = 43, d_off = 2, d_type = 8, d_name = ''secret''\<rparr>,
                rd_lookup = ex_sys (Inl EACCES) (Inl EACCES) None, rd_written = 32\<rparr>"

section \<open>Properties of forget\<close>

text \<open>
  C1. For every call forget(handle, n) on a table-resident inode: if n is greater than the
  record's lookup count, the server halts with \<^verbatim>\<open>exit(-1)\<close>; otherwise the count
  decreases by exactly n (without wrapping), and when the result is 0 the record is erased
  from the inode table, index and record both. The table mutex is free when the request
  arrives.
\<close>

theorem forget_table_resident:
  assumes res: "table_resident f (nodeid in_hdr) i"
    and unl: "\<not> m_locked f"
  shows "(nlookup i < forget_nlookup in_forget \<longrightarrow>
            fuser_mirror_forget f in_hdr in_forget = Inl (Exited (- 1))) \<and>
         (forget_nlookup in_forget < nlookup i \<longrightarrow>
            fuser_mirror_forget f in_hdr in_forget =
              Inr (0, f\<lparr>heap := (heap f)(nodeid in_hdr \<mapsto>
                            i\<lparr>nlookup := nlookup i - forget_nlookup in_forget\<rparr>)\<rparr>) \<and>
            unat (nlookup i - forget_nlookup in_forget) =
              unat (nlookup i) - unat (forget_nlookup in_forget)) \<and>
         (forget_nlookup in_forget = nlookup i \<longrightarrow>
            fuser_mirror_forget f in_hdr in_forget =
              Inr (0, f\<lparr>inodes := (inodes f)(src_ino i := None),
                         heap := (heap f)(nodeid in_hdr := None)\<rparr>))"
proof -
  let ?n = "forget_nlookup in_forget" and ?ino = "nodeid in_hdr"
  from res have ptr: "ino_to_inodeptr f ?ino = Some i"
    and key: "inodes f (src_ino i) = Some ?ino" and nr: "?ino \<noteq> FUSE_ROOT_ID"
    by (simp_all add: table_resident_def ino_to_inodeptr_def)
  have halt: "fuser_mirror_forget f in_hdr in_forget = Inl (Exited (- 1))"
    if "nlookup i < ?n"
    using that ptr by (simp add: fuser_mirror_forget_def forget_one_def)
  have keep: "fuser_mirror_forget f in_hdr in_forget =
      Inr (0, f\<lparr>heap := (heap f)(?ino \<mapsto> i\<lparr>nlookup := nlookup i - ?n\<rparr>)\<rparr>)"
    if "?n < nlookup i"
  proof -
    from that have "\<not> nlookup i < ?n" and "nlookup i \<noteq> ?n"
      by auto
    with ptr nr show ?thesis
      by (simp add: fuser_mirror_forget_def forget_one_def inode_store_def Let_def)
  qed
  have exact: "unat (nlookup i - ?n) = unat (nlookup i) - unat ?n" if "?n < nlookup i"
    using that by (simp add: unat_sub word_le_nat_alt word_less_nat_alt)
  have erase: "fuser_mirror_forget f in_hdr in_forget =
      Inr (0, f\<lparr>inodes := (inodes f)(src_ino i := None), heap := (heap f)(?ino := None)\<rparr>)"
    if "?n = nlookup i"
    using that ptr nr key unl
    by (simp add: fuser_mirror_forget_def forget_one_def inode_store_def
        inode_table_erase_def Let_def)
  from halt keep exact erase show ?thesis by blast
qed

theorem forget_table_resident_witness:
  "table_resident ex_fuser 4096 ex_inode \<and> \<not> m_locked ex_fuser \<and>
   fuser_mirror_forget ex_fuser \<lparr>nodeid = 4096\<rparr> \<lparr>forget_nlookup = 3\<rparr> = Inl (Exited (- 1)) \<and>
   fuser_mirror_forget ex_fuser \<lparr>nodeid = 4096\<rparr> \<lparr>forget_nlookup = 1\<rparr> =
     Inr (0, ex_fuser\<lparr>heap := [4096 \<mapsto> ex_inode\<lparr>nlookup := 1\<rparr>]\<rparr>) \<and>
   fuser_mirror_forget ex_fuser \<lparr>nodeid = 4096\<rparr> \<lparr>forget_nlookup = 2\<rparr> =
     Inr (0, ex_fuser\<lparr>inodes := Map.empty, heap := Map.empty\<rparr>)"
proof -
  have res: "table_resident ex_fuser (nodeid \<lparr>nodeid = 4096\<rparr>) ex_inode"
    by (simp add: table_resident_def ex_fuser_def ex_inode_def FUSE_ROOT_ID_def)
  have unl: "\<not> m_locked ex_fuser"
    by (simp add: ex_fuser_def)
  have n: "nlookup ex_inode = 2" "src_ino ex_inode = 42"
    by (simp_all add: ex_inode_def)
  have t: "inodes ex_fuser = [42 \<mapsto> 4096]" "heap ex_fuser = [4096 \<mapsto> ex_inode]"
    by (simp_all add: ex_fuser_def)
  show ?thesis
    using forget_table_resident [OF res unl, of "\<lparr>forget_nlookup = 3\<rparr>"]
      forget_table_resident [OF res unl, of "\<lparr>forget_nlookup = 1\<rparr>"]
      forget_table_resident [OF res unl, of "\<lparr>forget_nlookup = 2\<rparr>"]
      res unl
    by (simp add: n t)
qed

section \<open>Properties of lookup\<close>

text \<open>
  C8. For every lookup whose \<^verbatim>\<open>openat\<close> of the name under the parent fails with
  \<^verbatim>\<open>ENOENT\<close>, the handler returns 0 and the reply is a success: the header, which
  arrives with \<open>error = 0\<close>, keeps it, and the entry is negative, with node-id 0 and the
  entry timeout equal to the configured metadata timeout. The server state is unchanged.
\<close>

theorem lookup_negative_entry:
  assumes parent: "ino_to_fd f (nodeid in_hdr) = Some pfd"
    and missing: "sys_openat sys pfd in_name (O_PATH OR O_NOFOLLOW) = Inl ENOENT"
    and clear: "error out_hdr = 0"
  shows "\<exists>out_hdr' out_entry'.
           fuser_mirror_lookup f in_hdr in_name out_hdr out_entry sys =
             Inr (0, out_hdr', out_entry', f) \<and>
           error out_hdr' = 0 \<and> eo_nodeid out_entry' = 0 \<and>
           entry_valid out_entry' = timeout f"
  using assms
  by (simp add: fuser_mirror_lookup_def do_lookup_def fuse_ll_reply_entry_def Let_def)

theorem lookup_negative_entry_witness:
  "ino_to_fd ex_fuser 1 = Some 3 \<and> error ex_hdr = 0 \<and>
   (\<exists>out_hdr' out_entry'.
      fuser_mirror_lookup ex_fuser \<lparr>nodeid = 1\<rparr> ''missing'' ex_hdr ex_entry_out
          (ex_sys (Inl ENOENT) (Inl ENOENT) None) =
        Inr (0, out_hdr', out_entry', ex_fuser) \<and>
      error out_hdr' = 0 \<and> eo_nodeid out_entry' = 0 \<and> entry_valid out_entry' = 1)"
proof -
  have parent: "ino_to_fd ex_fuser (nodeid \<lparr>nodeid = 1\<rparr>) = Some 3"
    by (simp add: ino_to_fd_def ino_to_inodeptr_def ex_fuser_def FUSE_ROOT_ID_def)
  have missing: "sys_openat (ex_sys (Inl ENOENT) (Inl ENOENT) None) 3 ''missing''
      (O_PATH OR O_NOFOLLOW) = Inl ENOENT"
    by (simp add: ex_sys_def)
  have clear: "error ex_hdr = 0"
    by (simp add: ex_hdr_def)
  have t: "timeout ex_fuser = 1"
    by (simp add: ex_fuser_def)
  show ?thesis
    using lookup_negative_entry [OF parent missing clear, of ex_entry_out] parent clear
    by (simp add: t)
qed

text \<open>
  C3. For every lookup where the stat of the newly opened child reports a device other
  than the root's, the reply header carries \<open>- ENOTSUP\<close> and the inode table is unchanged,
  but the source returns without closing the descriptor it has just opened: the descriptor
  is still open in the state the handler leaves. (The branch for a failing
  \<^verbatim>\<open>fstatat\<close>, three lines above, closes it.)
\<close>

theorem lookup_mountpoint_leaks_fd:
  assumes parent: "ino_to_fd f (nodeid in_hdr) = Some pfd"
    and opened: "sys_openat sys pfd in_name (O_PATH OR O_NOFOLLOW) = Inr newfd"
    and statted: "sys_fstatat sys newfd = Inr st"
    and other_dev: "st_dev st \<noteq> root_src_dev f"
  shows "fuser_mirror_lookup f in_hdr in_name out_hdr out_entry sys =
           Inr (0, out_hdr\<lparr>error := - ENOTSUP\<rparr>, out_entry,
                f\<lparr>open_fds := insert newfd (open_fds f)\<rparr>)"
  using assms
  by (simp add: fuser_mirror_lookup_def do_lookup_def Let_def ENOTSUP_def ENOENT_def)

theorem lookup_mountpoint_leaks_fd_witness:
  "fuser_mirror_lookup ex_fuser \<lparr>nodeid = 1\<rparr> ''mnt'' ex_hdr ex_entry_out
       (ex_sys (Inr 9) (Inr \<lparr>st_dev = 8, st_ino = 50, st_nlink = 2, st_mode = 0\<rparr>) None) =
     Inr (0, ex_hdr\<lparr>error := - ENOTSUP\<rparr>, ex_entry_out, ex_fuser\<lparr>open_fds := {9, 3, 5}\<rparr>) \<and>
   9 \<notin> open_fds ex_fuser \<and> 9 \<in> open_fds (ex_fuser\<lparr>open_fds := {9, 3, 5}\<rparr>)"
proof -
  let ?sys = "ex_sys (Inr 9) (Inr \<lparr>st_dev = 8, st_ino = 50, st_nlink = 2, st_mode = 0\<rparr>) None"
  have parent: "ino_to_fd ex_fuser (nodeid \<lparr>nodeid = 1\<rparr>) = Some 3"
    by (simp add: ino_to_fd_def ino_to_inodeptr_def ex_fuser_def FUSE_ROOT_ID_def)
  have opened: "sys_openat ?sys 3 ''mnt'' (O_PATH OR O_NOFOLLOW) = Inr 9"
    by (simp add: ex_sys_def)
  have statted: "sys_fstatat ?sys 9 = Inr \<lparr>st_dev = 8, st_ino = 50, st_nlink = 2, st_mode = 0\<rparr>"
    by (simp add: ex_sys_def)
  have other_dev: "st_dev \<lparr>st_dev = 8, st_ino = 50, st_nlink = 2, st_mode = 0\<rparr> \<noteq> root_src_dev ex_fuser"
    by (simp add: ex_fuser_def)
  have fds: "open_fds ex_fuser = {3, 5}"
    by (simp add: ex_fuser_def)
  show ?thesis
    using lookup_mountpoint_leaks_fd [OF parent opened statted other_dev, of ex_hdr ex_entry_out]
    by (simp add: fds)
qed

text \<open>
  C10. When the insertion of a new record fails (get-or-insert returns the null pointer),
  \<^verbatim>\<open>do_lookup\<close> returns \<^verbatim>\<open>ENOMEM\<close> without releasing the table mutex it took: after
  the lookup has completed, with \<open>- ENOMEM\<close> in the reply header, the mutex is still held.
  Every other return path of \<^verbatim>\<open>do_lookup\<close> releases it or never takes it.
\<close>

theorem lookup_enomem_keeps_table_mutex:
  assumes parent: "ino_to_fd f (nodeid in_hdr) = Some pfd"
    and opened: "sys_openat sys pfd in_name (O_PATH OR O_NOFOLLOW) = Inr newfd"
    and statted: "sys_fstatat sys newfd = Inr st"
    and same_dev: "st_dev st = root_src_dev f"
    and not_root: "st_ino st \<noteq> FUSE_ROOT_ID"
    and free: "\<not> m_locked f"
    and new: "inodes f (st_ino st) = None"
    and nomem: "sys_alloc sys = None"
  shows "\<exists>f'. fuser_mirror_lookup f in_hdr in_name out_hdr out_entry sys =
           Inr (0, out_hdr\<lparr>error := - ENOMEM\<rparr>, out_entry, f') \<and> m_locked f' \<and>
           inodes f' = inodes f \<and> heap f' = heap f"
  using assms
  by (simp add: fuser_mirror_lookup_def do_lookup_def Let_def inode_table_getsert_def
      ENOMEM_def ENOENT_def)

theorem lookup_enomem_keeps_table_mutex_witness:
  "\<not> m_locked ex_fuser \<and>
   (\<exists>f'. fuser_mirror_lookup ex_fuser \<lparr>nodeid = 1\<rparr> ''hello'' ex_hdr ex_entry_out
            (ex_sys (Inr 9) (Inr \<lparr>st_dev = 7, st_ino = 50, st_nlink = 1, st_mode = 0\<rparr>) None) =
          Inr (0, ex_hdr\<lparr>error := - ENOMEM\<rparr>, ex_entry_out, f') \<and> m_locked f')"
proof -
  let ?st = "\<lparr>st_dev = 7, st_ino = 50, st_nlink = 1, st_mode = 0\<rparr>"
  let ?sys = "ex_sys (Inr 9) (Inr ?st) None"
  have parent: "ino_to_fd ex_fuser (nodeid \<lparr>nodeid = 1\<rparr>) = Some 3"
    by (simp add: ino_to_fd_def ino_to_inodeptr_def ex_fuser_def FUSE_ROOT_ID_def)
  have opened: "sys_openat ?sys 3 ''hello'' (O_PATH OR O_NOFOLLOW) = Inr 9"
    by (simp add: ex_sys_def)
  have statted: "sys_fstatat ?sys 9 = Inr ?st"
    by (simp add: ex_sys_def)
  have same_dev: "st_dev ?st = root_src_dev ex_fuser"
    by (simp add: ex_fuser_def)
  have not_root: "st_ino ?st \<noteq> FUSE_ROOT_ID"
    by (simp add: FUSE_ROOT_ID_def)
  have free: "\<not> m_locked ex_fuser"
    by (simp add: ex_fuser_def)
  have new: "inodes ex_fuser (st_ino ?st) = None"
    by (simp add: ex_fuser_def)
  have nomem: "sys_alloc ?sys = None"
    by (simp add: ex_sys_def)
  show ?thesis
    using lookup_enomem_keeps_table_mutex [OF parent opened statted same_dev not_root free new nomem,
        of ex_hdr ex_entry_out] free
    by blast
qed

section \<open>Properties of open and create\<close>

lemma fixed_flags:
  "(O_RDWR OR O_DIRECT) AND O_ACCMODE \<noteq> O_WRONLY"
  "(O_RDWR OR O_DIRECT) AND O_APPEND = 0"
  "(O_RDWR OR O_DIRECT) AND NOT O_NOFOLLOW = O_RDWR OR O_DIRECT"
  "(O_RDWR OR O_DIRECT) AND O_ACCMODE \<noteq> O_RDONLY"
  by (simp_all add: O_RDWR_def O_DIRECT_def O_ACCMODE_def O_WRONLY_def O_APPEND_def
      O_NOFOLLOW_def O_RDONLY_def)

text \<open>
  C4, as the specification states it, fails: for a file that the server may only read, a
  request to open it read-only would succeed with the flags of the request, but the
  handler opens with \<^verbatim>\<open>O_RDWR | O_DIRECT\<close>, gets \<^verbatim>\<open>EACCES\<close>, and replies the error
  without touching the state.
\<close>

theorem open_request_flags_counterexample:
  "ro_open (''/proc/self/fd/'' @ show_int (fd ex_inode))
      (claimed_open_flags (timeout ex_fuser) (open_in_flags \<lparr>open_in_flags = O_RDONLY\<rparr>)) = Inr 9 \<and>
   fuser_mirror_open ex_fuser \<lparr>nodeid = 4096\<rparr> \<lparr>open_in_flags = O_RDONLY\<rparr> ex_hdr ex_open_out ro_open =
     (0, ex_hdr\<lparr>error := - EACCES\<rparr>, ex_open_out, ex_fuser)"
proof -
  have asked: "claimed_open_flags (timeout ex_fuser) (open_in_flags \<lparr>open_in_flags = O_RDONLY\<rparr>) = O_RDONLY"
    by (simp add: claimed_open_flags_def Let_def O_RDONLY_def O_ACCMODE_def O_WRONLY_def)
  have fd5: "fd ex_inode = 5"
    by (simp add: ex_inode_def)
  have would: "ro_open ''/proc/self/fd/5'' O_RDONLY = Inr 9"
    by (simp add: ro_open_def O_RDONLY_def)
  have does: "ro_open ''/proc/self/fd/5'' (O_RDWR OR O_DIRECT) = Inl EACCES"
    by (simp add: ro_open_def fixed_flags)
  have known: "ino_to_inodeptr ex_fuser 4096 = Some ex_inode"
    by (simp add: ino_to_inodeptr_def ex_fuser_def FUSE_ROOT_ID_def)
  have "fuser_mirror_open ex_fuser \<lparr>nodeid = 4096\<rparr> \<lparr>open_in_flags = O_RDONLY\<rparr> ex_hdr ex_open_out ro_open =
     (0, ex_hdr\<lparr>error := - EACCES\<rparr>, ex_open_out, ex_fuser)"
    by (simp add: fuser_mirror_open_def Let_def fixed_flags known fd5 show_int_def
        show_nat.simps does)
  with asked would fd5 show ?thesis
    by (simp add: show_int_def show_nat.simps)
qed

text \<open>
  C4, amended. For every open request on a known inode the handler reopens the inode's
  path-only descriptor through \<^verbatim>\<open>/proc/self/fd/<fd>\<close> with the fixed flags
  \<^verbatim>\<open>O_RDWR | O_DIRECT\<close>, whatever flags the request supplies and whatever the metadata
  timeout (the rewrites of write-only access, \<^verbatim>\<open>O_APPEND\<close> and \<^verbatim>\<open>O_NOFOLLOW\<close> change
  nothing on these flags). When the reopen succeeds the new descriptor is the file handle
  of the reply, the header keeps its \<open>error\<close>, and \<open>nopen\<close> of the record is one more;
  when it fails the reply carries the negated error number and the state is unchanged.
\<close>

theorem open_fixed_flags:
  assumes known: "ino_to_inodeptr f (nodeid in_hdr) = Some i"
  shows "(\<forall>err. sys_open (''/proc/self/fd/'' @ show_int (fd i)) (O_RDWR OR O_DIRECT) = Inl err \<longrightarrow>
            fuser_mirror_open f in_hdr in_open out_hdr out_open sys_open =
              (0, out_hdr\<lparr>error := - err\<rparr>, out_open, f)) \<and>
         (\<forall>newfd. sys_open (''/proc/self/fd/'' @ show_int (fd i)) (O_RDWR OR O_DIRECT) = Inr newfd \<longrightarrow>
            (\<exists>out_hdr' out_open' f'.
               fuser_mirror_open f in_hdr in_open out_hdr out_open sys_open =
                 (0, out_hdr', out_open', f') \<and>
               error out_hdr' = error out_hdr \<and>
               oo_fh out_open' = word_of_int newfd \<and>
               ino_to_inodeptr f' (nodeid in_hdr) = Some (i\<lparr>nopen := nopen i + 1\<rparr>) \<and>
               open_fds f' = insert newfd (open_fds f)))"
  using known
  by (auto simp: fuser_mirror_open_def Let_def fixed_flags fuse_ll_reply_open_def
      inode_store_def ino_to_inodeptr_def)

theorem open_fixed_flags_witness:
  "ino_to_inodeptr ex_fuser 4096 = Some ex_inode \<and>
   (\<exists>out_hdr' out_open' f'.
      fuser_mirror_open ex_fuser \<lparr>nodeid = 4096\<rparr> \<lparr>open_in_flags = O_RDONLY\<rparr> ex_hdr ex_open_out
          (\<lambda>path fl. Inr 9) = (0, out_hdr', out_open', f') \<and>
      error out_hdr' = 0 \<and> oo_fh out_open' = 9 \<and>
      ino_to_inodeptr f' 4096 = Some (ex_inode\<lparr>nopen := 1\<rparr>) \<and>
      open_fds f' = {9, 3, 5}) \<and>
   fuser_mirror_open ex_fuser \<lparr>nodeid = 4096\<rparr> \<lparr>open_in_flags = O_RDONLY\<rparr> ex_hdr ex_open_out
       (\<lambda>path fl. Inl 24) = (0, ex_hdr\<lparr>error := - 24\<rparr>, ex_open_out, ex_fuser)"
proof -
  have known: "ino_to_inodeptr ex_fuser (nodeid \<lparr>nodeid = 4096\<rparr>) = Some ex_inode"
    by (simp add: ino_to_inodeptr_def ex_fuser_def FUSE_ROOT_ID_def)
  have v: "error ex_hdr = 0" "nopen ex_inode = 0" "open_fds ex_fuser = {3, 5}"
    by (simp_all add: ex_hdr_def ex_inode_def ex_fuser_def)
  show ?thesis
    using open_fixed_flags [OF known, of "\<lambda>path fl. Inr 9" "\<lparr>open_in_flags = O_RDONLY\<rparr>" ex_hdr ex_open_out]
      open_fixed_flags [OF known, of "\<lambda>path fl. Inl 24" "\<lparr>open_in_flags = O_RDONLY\<rparr>" ex_hdr ex_open_out]
      known
    by (simp add: v)
qed

text \<open>
  C9. For every create request on a known parent whose \<^verbatim>\<open>openat\<close> with
  \<^verbatim>\<open>O_CREAT\<close> fails, or whose subsequent lookup fails, the source stores the error number
  itself in the reply header, positive, where every other handler stores its negation.
\<close>

theorem create_error_sign:
  assumes known: "ino_to_inodeptr f (nodeid in_hdr) = Some ip"
  shows "(\<forall>errno. sys_creat (fd ip) in_name
              ((create_flags in_create OR O_CREAT) AND NOT O_NOFOLLOW) (create_mode in_create) = Inl errno \<longrightarrow>
            fuser_mirror_create f in_hdr in_create in_name out_hdr out_entry out_open sys_creat sys =
              Inr (0, out_hdr\<lparr>error := errno\<rparr>, out_entry, out_open, f)) \<and>
         (\<forall>newfd err e f2. sys_creat (fd ip) in_name
              ((create_flags in_create OR O_CREAT) AND NOT O_NOFOLLOW) (create_mode in_create) = Inr newfd \<and>
            do_lookup (f\<lparr>open_fds := insert newfd (open_fds f)\<rparr>) (nodeid in_hdr) in_name sys =
              Inr (err, e, f2) \<and> err \<noteq> 0 \<longrightarrow>
            fuser_mirror_create f in_hdr in_create in_name out_hdr out_entry out_open sys_creat sys =
              Inr (0, out_hdr\<lparr>error := err\<rparr>, out_entry, out_open, f2))"
  using known by (simp add: fuser_mirror_create_def Let_def)

theorem create_error_sign_witness:
  "ino_to_inodeptr ex_fuser 1 = Some (root ex_fuser) \<and>
   fuser_mirror_create ex_fuser \<lparr>nodeid = 1\<rparr> \<lparr>create_flags = O_WRONLY, create_mode = 420\<rparr>
       ''new'' ex_hdr ex_entry_out ex_open_out (\<lambda>dirfd name fl mode. Inl EACCES)
       (ex_sys (Inl ENOENT) (Inl ENOENT) None) =
     Inr (0, ex_hdr\<lparr>error := 13\<rparr>, ex_entry_out, ex_open_out, ex_fuser)"
proof -
  have known: "ino_to_inodeptr ex_fuser (nodeid \<lparr>nodeid = 1\<rparr>) = Some (root ex_fuser)"
    by (simp add: ino_to_inodeptr_def FUSE_ROOT_ID_def)
  show ?thesis
    using create_error_sign [OF known, of "\<lambda>dirfd name fl mode. Inl EACCES" "''new''"
        "\<lparr>create_flags = O_WRONLY, create_mode = 420\<rparr>" ex_hdr ex_entry_out ex_open_out
        "ex_sys (Inl ENOENT) (Inl ENOENT) None"] known
    by (simp add: EACCES_def)
qed

section \<open>Properties of read and write\<close>

text \<open>
  C5. For every read or write request (with a callback record from the pool) the handler
  submits one control block, for \<^verbatim>\<open>PREADV\<close> or \<^verbatim>\<open>PWRITEV\<close> on the file handle and
  the offset of the request. If the submission fails, the handler sets the reply header
  error to the negated \<^verbatim>\<open>errno\<close> and returns 0 (done synchronously); if it succeeds, the
  handler returns \<^verbatim>\<open>EWOULDBLOCK\<close> (pending) and leaves the reply header as it was, so an
  error field that arrived as zero stays zero.
\<close>

theorem read_write_submit:
  "(\<exists>cb. aio_lio_opcode cb = IOCB_CMD_PREADV \<and> aio_fildes cb = ucast (read_fh in_read) \<and>
         aio_offset cb = read_offset in_read \<and> aio_data cb = p \<and>
         (\<forall>errno. sys cb = Inl errno \<longrightarrow>
            fuser_mirror_read in_read out_hdr iov iovcnt (Some p) sys =
              Inr (0, out_hdr\<lparr>error := - errno\<rparr>)) \<and>
         (\<forall>n. sys cb = Inr n \<longrightarrow>
            fuser_mirror_read in_read out_hdr iov iovcnt (Some p) sys =
              Inr (EWOULDBLOCK, out_hdr))) \<and>
   (\<exists>cb. aio_lio_opcode cb = IOCB_CMD_PWRITEV \<and> aio_fildes cb = ucast (write_fh in_write) \<and>
         aio_offset cb = write_offset in_write \<and> aio_data cb = p \<and>
         (\<forall>errno. sys cb = Inl errno \<longrightarrow>
            fuser_mirror_write in_write out_hdr iov iovcnt (Some p) sys =
              Inr (0, out_hdr\<lparr>error := - errno\<rparr>)) \<and>
         (\<forall>n. sys cb = Inr n \<longrightarrow>
            fuser_mirror_write in_write out_hdr iov iovcnt (Some p) sys =
              Inr (EWOULDBLOCK, out_hdr)))"
proof
  let ?r = "\<lparr>aio_data = p, aio_fildes = ucast (read_fh in_read),
             aio_lio_opcode = IOCB_CMD_PREADV, aio_reqprio = 0, aio_buf = iov,
             aio_nbytes = word_of_int iovcnt, aio_offset = read_offset in_read\<rparr>"
  show "\<exists>cb. aio_lio_opcode cb = IOCB_CMD_PREADV \<and> aio_fildes cb = ucast (read_fh in_read) \<and>
         aio_offset cb = read_offset in_read \<and> aio_data cb = p \<and>
         (\<forall>errno. sys cb = Inl errno \<longrightarrow>
            fuser_mirror_read in_read out_hdr iov iovcnt (Some p) sys =
              Inr (0, out_hdr\<lparr>error := - errno\<rparr>)) \<and>
         (\<forall>n. sys cb = Inr n \<longrightarrow>
            fuser_mirror_read in_read out_hdr iov iovcnt (Some p) sys =
              Inr (EWOULDBLOCK, out_hdr))"
    by (rule exI [of _ ?r]) (simp add: fuser_mirror_read_def)
next
  let ?w = "\<lparr>aio_data = p, aio_fildes = ucast (write_fh in_write),
             aio_lio_opcode = IOCB_CMD_PWRITEV, aio_reqprio = 0, aio_buf = iov,
             aio_nbytes = word_of_int iovcnt, aio_offset = write_offset in_write\<rparr>"
  show "\<exists>cb. aio_lio_opcode cb = IOCB_CMD_PWRITEV \<and> aio_fildes cb = ucast (write_fh in_write) \<and>
         aio_offset cb = write_offset in_write \<and> aio_data cb = p \<and>
         (\<forall>errno. sys cb = Inl errno \<longrightarrow>
            fuser_mirror_write in_write out_hdr iov iovcnt (Some p) sys =
              Inr (0, out_hdr\<lparr>error := - errno\<rparr>)) \<and>
         (\<forall>n. sys cb = Inr n \<longrightarrow>
            fuser_mirror_write in_write out_hdr iov iovcnt (Some p) sys =
              Inr (EWOULDBLOCK, out_hdr))"
    by (rule exI [of _ ?w]) (simp add: fuser_mirror_write_def)
qed

theorem read_write_submit_witness:
  "fuser_mirror_read \<lparr>read_fh = 9, read_offset = 0, read_size = 4096\<rparr> ex_hdr 0 1 (Some 64)
       (\<lambda>cb. Inl 11) = Inr (0, ex_hdr\<lparr>error := - 11\<rparr>) \<and>
   fuser_mirror_read \<lparr>read_fh = 9, read_offset = 0, read_size = 4096\<rparr> ex_hdr 0 1 (Some 64)
       (\<lambda>cb. Inr 1) = Inr (EWOULDBLOCK, ex_hdr) \<and>
   fuser_mirror_write \<lparr>write_fh = 9, write_offset = 0, write_size = 8\<rparr> ex_hdr 0 1 (Some 64)
       (\<lambda>cb. Inl 11) = Inr (0, ex_hdr\<lparr>error := - 11\<rparr>) \<and>
   fuser_mirror_write \<lparr>write_fh = 9, write_offset = 0, write_size = 8\<rparr> ex_hdr 0 1 (Some 64)
       (\<lambda>cb. Inr 1) = Inr (EWOULDBLOCK, ex_hdr) \<and>
   error ex_hdr = 0"
  using read_write_submit [of "\<lparr>read_fh = 9, read_offset = 0, read_size = 4096\<rparr>" 64
      "\<lambda>cb. Inl 11" ex_hdr 0 1 "\<lparr>write_fh = 9, write_offset = 0, write_size = 8\<rparr>"]
    read_write_submit [of "\<lparr>read_fh = 9, read_offset = 0, read_size = 4096\<rparr>" 64
      "\<lambda>cb. Inr 1" ex_hdr 0 1 "\<lparr>write_fh = 9, write_offset = 0, write_size = 8\<rparr>"]
  by (auto simp: ex_hdr_def)

section \<open>Lookup counts\<close>

text \<open>
  The three ways a lookup that reaches the table succeeds: the record exists with a live
  descriptor, the record exists without one (its slot is recycled), or the record is new.
\<close>

lemma do_lookup_live:
  assumes "ino_to_fd f parent = Some pfd"
    and "sys_openat sys pfd name (O_PATH OR O_NOFOLLOW) = Inr newfd"
    and "sys_fstatat sys newfd = Inr st"
    and "st_dev st = root_src_dev f" and "st_ino st \<noteq> FUSE_ROOT_ID" and "\<not> m_locked f"
    and "inodes f (st_ino st) = Some a" and "heap f a = Some i" and "0 < fd i"
  shows "do_lookup f parent name sys =
           Inr (0, zero_entry\<lparr>e_attr_timeout := timeout f, e_entry_timeout := timeout f,
                              e_attr := st, e_ino := a, e_generation := generation i\<rparr>,
                f\<lparr>heap := (heap f)(a \<mapsto> i\<lparr>nlookup := nlookup i + 1\<rparr>),
                   open_fds := open_fds f - {newfd}\<rparr>)"
  using assms by (simp add: do_lookup_def Let_def inode_table_getsert_def)

lemma do_lookup_adopt:
  assumes "ino_to_fd f parent = Some pfd"
    and "sys_openat sys pfd name (O_PATH OR O_NOFOLLOW) = Inr newfd"
    and "sys_fstatat sys newfd = Inr st"
    and "st_dev st = root_src_dev f" and "st_ino st \<noteq> FUSE_ROOT_ID" and "\<not> m_locked f"
    and "inodes f (st_ino st) = Some a" and "heap f a = Some i" and "\<not> 0 < fd i"
  shows "do_lookup f parent name sys =
           Inr (0, zero_entry\<lparr>e_attr_timeout := timeout f, e_entry_timeout := timeout f,
                              e_attr := st, e_ino := a, e_generation := generation i\<rparr>,
                f\<lparr>heap := (heap f)(a \<mapsto> i\<lparr>src_ino := st_ino st, src_dev := st_dev st,
                                            nlookup := nlookup i + 1, fd := newfd\<rparr>),
                   open_fds := insert newfd (open_fds f)\<rparr>)"
  using assms by (simp add: do_lookup_def Let_def inode_table_getsert_def)

lemma do_lookup_fresh:
  assumes "ino_to_fd f parent = Some pfd"
    and "sys_openat sys pfd name (O_PATH OR O_NOFOLLOW) = Inr newfd"
    and "sys_fstatat sys newfd = Inr st"
    and "st_dev st = root_src_dev f" and "st_ino st \<noteq> FUSE_ROOT_ID" and "\<not> m_locked f"
    and "inodes f (st_ino st) = None" and "sys_alloc sys = Some a"
  shows "do_lookup f parent name sys =
           Inr (0, zero_entry\<lparr>e_attr_timeout := timeout f, e_entry_timeout := timeout f,
                              e_attr := st, e_ino := a, e_generation := 0\<rparr>,
                f\<lparr>inodes := (inodes f)(st_ino st \<mapsto> a),
                   heap := (heap f)(a \<mapsto> \<lparr>src_ino = st_ino st, src_dev = st_dev st,
                       fd = newfd, nlookup = 1, nopen = 0, generation = 0\<rparr>),
                   open_fds := insert newfd (open_fds f)\<rparr>)"
  using assms by (simp add: do_lookup_def Let_def inode_table_getsert_def new_inode_def)

text \<open>What a successful lookup leaves behind.\<close>

lemma do_lookup_ok:
  assumes "ino_to_fd f parent = Some pfd"
    and "sys_openat sys pfd name (O_PATH OR O_NOFOLLOW) = Inr newfd"
    and "sys_fstatat sys newfd = Inr st"
    and "do_lookup f parent name sys = Inr (0, e, f')"
  shows "st_dev st = root_src_dev f \<and> st_ino st \<noteq> FUSE_ROOT_ID \<and>
         \<not> m_locked f' \<and> root_src_dev f' = root_src_dev f \<and>
         inodes f' (st_ino st) = Some (e_ino e) \<and>
         (\<exists>i. heap f' (e_ino e) = Some i \<and> generation i = e_generation e)"
  using assms
  by (auto simp: do_lookup_def Let_def inode_table_getsert_def ENOTSUP_def EIO_def ENOMEM_def
      split: if_splits option.splits)

text \<open>A forget that leaves a positive count, and one that takes the count to zero.\<close>

lemma forget_one_keep:
  assumes "ino \<noteq> FUSE_ROOT_ID" and "heap f ino = Some i" and "n < nlookup i"
  shows "forget_one f ino n = Inr (f\<lparr>heap := (heap f)(ino \<mapsto> i\<lparr>nlookup := nlookup i - n\<rparr>)\<rparr>)"
proof -
  from assms(3) have "\<not> nlookup i < n" and "nlookup i \<noteq> n"
    by auto
  with assms(1,2) show ?thesis
    by (simp add: forget_one_def ino_to_inodeptr_def inode_store_def Let_def)
qed

lemma forget_one_erase:
  assumes "ino \<noteq> FUSE_ROOT_ID" and "heap f ino = Some i" and "n = nlookup i"
    and "inodes f (src_ino i) = Some ino" and "\<not> m_locked f"
  shows "forget_one f ino n =
           Inr (f\<lparr>inodes := (inodes f)(src_ino i := None), heap := (heap f)(ino := None)\<rparr>)"
  using assms
  by (simp add: forget_one_def ino_to_inodeptr_def inode_store_def inode_table_erase_def Let_def)

lemma word_one_less_succ:
  fixes x :: u64
  assumes "x \<noteq> 0" and "x + 1 \<noteq> 0"
  shows "1 < x + 1"
proof -
  from assms(2) have "unat (x + 1) = Suc (unat x)"
    using unatSuc [of x] by (simp add: add.commute)
  moreover from assms(1) have "0 < unat x"
    by (simp add: unat_gt_0)
  ultimately show ?thesis
    by (simp add: word_less_nat_alt)
qed

text \<open>
  The lookups of \<^verbatim>\<open>hello\<close> on the counted example, and the first lookup of Scenario A.
\<close>

lemma ex_counted_lookup:
  "do_lookup (ex_counted n) 1 ''hello'' (ex_sys (Inr 9) (Inr ex_stat) None) =
     Inr (0, ex_e, ex_counted (n + 1))"
  "do_lookup (ex_counted n) 1 ''hello'' (ex_sys (Inr 10) (Inr ex_stat) None) =
     Inr (0, ex_e, ex_counted (n + 1))"
  by (simp_all add: do_lookup_def Let_def inode_table_getsert_def ex_fuser_def ex_counted_def
      ex_sys_def ex_stat_def ex_e_def ex_inode_def ino_to_fd_def ino_to_inodeptr_def
      FUSE_ROOT_ID_def zero_entry_def zero_stat_def)

lemma ex_counted_2: "ex_counted 2 = ex_fuser"
  by (simp add: ex_counted_def ex_fuser_def ex_inode_def)

lemma ex_first_lookup:
  "do_lookup ex_empty 1 ''hello'' (ex_sys (Inr 9) (Inr ex_stat) (Some 4096)) =
     Inr (0, ex_e, ex_once)"
  by (simp add: do_lookup_def Let_def inode_table_getsert_def new_inode_def ex_empty_def
      ex_sys_def ex_stat_def ex_once_def ex_e_def ex_rec_def ino_to_fd_def ino_to_inodeptr_def
      FUSE_ROOT_ID_def zero_entry_def zero_stat_def)

text \<open>
  C2, as the specification states it, fails: on the server of the running example, whose
  record for the backing inode 42 holds a live descriptor and the lookup count 2, two
  successful lookups of \<^verbatim>\<open>hello\<close> return the same node-id 4096 and generation 0 and take
  the count to 3 and to 4, but after two forgets with n = 1 the count is 2 again and the
  record is still in the table: the state is the one before the lookups.
\<close>

theorem lookup_twice_not_erased_counterexample:
  "table_resident ex_fuser 4096 ex_inode \<and> 0 < fd ex_inode \<and> nlookup ex_inode = 2 \<and>
   do_lookup ex_fuser 1 ''hello'' (ex_sys (Inr 9) (Inr ex_stat) None) =
     Inr (0, ex_e, ex_counted 3) \<and>
   do_lookup (ex_counted 3) 1 ''hello'' (ex_sys (Inr 10) (Inr ex_stat) None) =
     Inr (0, ex_e, ex_counted 4) \<and>
   forget_one (ex_counted 4) 4096 1 = Inr (ex_counted 3) \<and>
   forget_one (ex_counted 3) 4096 1 = Inr (ex_counted 2) \<and>
   ex_counted 2 = ex_fuser \<and>
   inodes (ex_counted 2) 42 = Some 4096 \<and> heap (ex_counted 2) 4096 = Some ex_inode"
proof -
  have res: "table_resident ex_fuser 4096 ex_inode"
    by (simp add: table_resident_def ex_fuser_def ex_inode_def FUSE_ROOT_ID_def)
  have live: "0 < fd ex_inode" and two: "nlookup ex_inode = 2"
    by (simp_all add: ex_inode_def)
  have l1: "do_lookup ex_fuser 1 ''hello'' (ex_sys (Inr 9) (Inr ex_stat) None) =
      Inr (0, ex_e, ex_counted 3)"
    using ex_counted_lookup(1) [of 2] by (simp add: ex_counted_2)
  have l2: "do_lookup (ex_counted 3) 1 ''hello'' (ex_sys (Inr 10) (Inr ex_stat) None) =
      Inr (0, ex_e, ex_counted 4)"
    using ex_counted_lookup(2) [of 3] by simp
  have f1: "forget_one (ex_counted 4) 4096 1 = Inr (ex_counted 3)"
    by (simp add: forget_one_def Let_def ino_to_inodeptr_def inode_store_def ex_counted_def
        ex_fuser_def ex_inode_def FUSE_ROOT_ID_def)
  have f2: "forget_one (ex_counted 3) 4096 1 = Inr (ex_counted 2)"
    by (simp add: forget_one_def Let_def ino_to_inodeptr_def inode_store_def ex_counted_def
        ex_fuser_def ex_inode_def FUSE_ROOT_ID_def)
  note same = ex_counted_2
  have still: "inodes (ex_counted 2) 42 = Some 4096 \<and> heap (ex_counted 2) 4096 = Some ex_inode"
    by (simp add: ex_counted_def ex_fuser_def ex_inode_def)
  from res live two l1 l2 f1 f2 same still show ?thesis
    by simp
qed

text \<open>
  C2, amended. Two successful lookups of the same (parent, name) that resolve to the same
  backing inode, whose record is in the table with a live descriptor after the first: both
  return the same node-id and the same generation, those of the record, in the entry
  parameter and in each reply (whose header keeps its \<open>error\<close>); the second lookup closes
  the descriptor it has just opened and increments the lookup count by exactly one. After
  two forgets with n = 1 the record is erased from the table when the two lookups are the
  only references (the count after the first lookup is 1, as for a record that the first
  lookup created); when the count after the first lookup is greater than 1, the record
  stays in the table, its count one less than after the first lookup.
\<close>

theorem lookup_twice_forget_twice:
  assumes p1: "ino_to_fd f parent = Some pfd1"
    and o1: "sys_openat sys1 pfd1 name (O_PATH OR O_NOFOLLOW) = Inr newfd1"
    and s1: "sys_fstatat sys1 newfd1 = Inr st1"
    and ok1: "do_lookup f parent name sys1 = Inr (0, ea, f1)"
    and p2: "ino_to_fd f1 parent = Some pfd2"
    and o2: "sys_openat sys2 pfd2 name (O_PATH OR O_NOFOLLOW) = Inr newfd2"
    and s2: "sys_fstatat sys2 newfd2 = Inr st2"
    and ok2: "do_lookup f1 parent name sys2 = Inr (0, eb, f2)"
    and same: "st_ino st2 = st_ino st1"
    and res: "table_resident f1 (e_ino ea) i"
    and live: "0 < fd i"
  shows "e_ino eb = e_ino ea \<and> e_generation eb = e_generation ea \<and>
         e_generation ea = generation i \<and> inodes f2 (st_ino st1) = Some (e_ino ea) \<and>
         (\<forall>in_hdr oh1 oe1 oh2 oe2. nodeid in_hdr = parent \<longrightarrow>
            (\<exists>ha ra hb rb.
               fuser_mirror_lookup f in_hdr name oh1 oe1 sys1 = Inr (0, ha, ra, f1) \<and>
               fuser_mirror_lookup f1 in_hdr name oh2 oe2 sys2 = Inr (0, hb, rb, f2) \<and>
               eo_nodeid ra = e_ino ea \<and> eo_nodeid rb = e_ino ea \<and>
               eo_generation ra = generation i \<and> eo_generation rb = generation i \<and>
               error ha = error oh1 \<and> error hb = error oh2)) \<and>
         newfd2 \<notin> open_fds f2 \<and>
         heap f2 (e_ino ea) = Some (i\<lparr>nlookup := nlookup i + 1\<rparr>) \<and>
         (nlookup i + 1 \<noteq> 0 \<longrightarrow> unat (nlookup i + 1) = unat (nlookup i) + 1) \<and>
         (nlookup i = 1 \<longrightarrow>
            (\<exists>f3 f4. forget_one f2 (e_ino ea) 1 = Inr f3 \<and> forget_one f3 (e_ino ea) 1 = Inr f4 \<and>
               heap f4 (e_ino ea) = None \<and> inodes f4 (src_ino i) = None)) \<and>
         (1 < nlookup i \<and> nlookup i + 1 \<noteq> 0 \<longrightarrow>
            (\<exists>f3 f4. forget_one f2 (e_ino ea) 1 = Inr f3 \<and> forget_one f3 (e_ino ea) 1 = Inr f4 \<and>
               heap f4 (e_ino ea) = Some (i\<lparr>nlookup := nlookup i - 1\<rparr>) \<and>
               inodes f4 (src_ino i) = Some (e_ino ea)))"
proof -
  let ?a = "e_ino ea"
  from res have nr: "?a \<noteq> FUSE_ROOT_ID" and rec: "heap f1 ?a = Some i"
    and key: "inodes f1 (src_ino i) = Some ?a"
    by (simp_all add: table_resident_def)
  from do_lookup_ok [OF p1 o1 s1 ok1] rec
  have idx: "inodes f1 (st_ino st1) = Some ?a" and gen: "generation i = e_generation ea"
    and free: "\<not> m_locked f1"
    by auto
  from do_lookup_ok [OF p2 o2 s2 ok2] same
  have dev2: "st_dev st2 = root_src_dev f1" and nroot2: "st_ino st2 \<noteq> FUSE_ROOT_ID"
    by auto
  from idx same have idx2: "inodes f1 (st_ino st2) = Some ?a"
    by simp
  from do_lookup_live [OF p2 o2 s2 dev2 nroot2 free idx2 rec live] ok2
  have eb: "eb = zero_entry\<lparr>e_attr_timeout := timeout f1, e_entry_timeout := timeout f1,
                           e_attr := st2, e_ino := ?a, e_generation := generation i\<rparr>"
    and f2: "f2 = f1\<lparr>heap := (heap f1)(?a \<mapsto> i\<lparr>nlookup := nlookup i + 1\<rparr>),
                    open_fds := open_fds f1 - {newfd2}\<rparr>"
    by simp_all
  have ids: "e_ino eb = ?a \<and> e_generation eb = e_generation ea \<and>
      e_generation ea = generation i \<and> inodes f2 (st_ino st1) = Some ?a"
    by (simp add: eb gen f2 idx)
  have replies: "\<exists>ha ra hb rb.
      fuser_mirror_lookup f in_hdr name oh1 oe1 sys1 = Inr (0, ha, ra, f1) \<and>
      fuser_mirror_lookup f1 in_hdr name oh2 oe2 sys2 = Inr (0, hb, rb, f2) \<and>
      eo_nodeid ra = ?a \<and> eo_nodeid rb = ?a \<and>
      eo_generation ra = generation i \<and> eo_generation rb = generation i \<and>
      error ha = error oh1 \<and> error hb = error oh2"
    if "nodeid in_hdr = parent" for in_hdr oh1 oe1 oh2 oe2
    using that ok1 ok2 ids
    by (simp add: fuser_mirror_lookup_def fuse_ll_reply_entry_def ENOENT_def)
  have closed: "newfd2 \<notin> open_fds f2"
    by (simp add: f2)
  have count: "heap f2 ?a = Some (i\<lparr>nlookup := nlookup i + 1\<rparr>)"
    by (simp add: f2)
  have exact: "unat (nlookup i + 1) = unat (nlookup i) + 1" if "nlookup i + 1 \<noteq> 0"
    using that unatSuc [of "nlookup i"] by (simp add: add.commute)
  have erased: "\<exists>f3 f4. forget_one f2 ?a 1 = Inr f3 \<and> forget_one f3 ?a 1 = Inr f4 \<and>
      heap f4 ?a = None \<and> inodes f4 (src_ino i) = None" if one: "nlookup i = 1"
  proof -
    let ?f3 = "f2\<lparr>heap := (heap f2)(?a \<mapsto> i\<lparr>nlookup := 1\<rparr>)\<rparr>"
    let ?f4 = "?f3\<lparr>inodes := (inodes ?f3)(src_ino i := None), heap := (heap ?f3)(?a := None)\<rparr>"
    have first: "forget_one f2 ?a 1 = Inr ?f3"
      using forget_one_keep [OF nr count, of 1] one by simp
    have "forget_one ?f3 ?a 1 =
        Inr (?f3\<lparr>inodes := (inodes ?f3)(src_ino (i\<lparr>nlookup := 1\<rparr>) := None),
                 heap := (heap ?f3)(?a := None)\<rparr>)"
      by (rule forget_one_erase [OF nr]) (simp_all add: f2 key free)
    then have second: "forget_one ?f3 ?a 1 = Inr ?f4"
      by simp
    have "heap ?f4 ?a = None \<and> inodes ?f4 (src_ino i) = None"
      by simp
    with first second show ?thesis
      by blast
  qed
  have kept: "\<exists>f3 f4. forget_one f2 ?a 1 = Inr f3 \<and> forget_one f3 ?a 1 = Inr f4 \<and>
      heap f4 ?a = Some (i\<lparr>nlookup := nlookup i - 1\<rparr>) \<and> inodes f4 (src_ino i) = Some ?a"
    if more: "1 < nlookup i" and nov: "nlookup i + 1 \<noteq> 0"
  proof -
    let ?f3 = "f2\<lparr>heap := (heap f2)(?a \<mapsto> i\<lparr>nlookup := nlookup i\<rparr>)\<rparr>"
    let ?f4 = "?f3\<lparr>heap := (heap ?f3)(?a \<mapsto> i\<lparr>nlookup := nlookup i - 1\<rparr>)\<rparr>"
    from more have pos: "nlookup i \<noteq> 0"
      by auto
    from pos nov have "1 < nlookup i + 1"
      by (rule word_one_less_succ)
    then have "1 < nlookup (i\<lparr>nlookup := nlookup i + 1\<rparr>)"
      by simp
    from forget_one_keep [OF nr count this]
    have first: "forget_one f2 ?a 1 = Inr ?f3"
      by simp
    have h3: "heap ?f3 ?a = Some (i\<lparr>nlookup := nlookup i\<rparr>)"
      by simp
    from more have "1 < nlookup (i\<lparr>nlookup := nlookup i\<rparr>)"
      by simp
    from forget_one_keep [OF nr h3 this]
    have second: "forget_one ?f3 ?a 1 = Inr ?f4"
      by simp
    have "heap ?f4 ?a = Some (i\<lparr>nlookup := nlookup i - 1\<rparr>) \<and> inodes ?f4 (src_ino i) = Some ?a"
      by (simp add: f2 key)
    with first second show ?thesis
      by blast
  qed
  from ids replies closed count exact erased kept show ?thesis
    by blast
qed

theorem lookup_twice_forget_twice_witness:
  "do_lookup ex_empty 1 ''hello'' (ex_sys (Inr 9) (Inr ex_stat) (Some 4096)) =
     Inr (0, ex_e, ex_once) \<and>
   table_resident ex_once 4096 ex_rec \<and> 0 < fd ex_rec \<and> nlookup ex_rec = 1 \<and>
   (\<exists>eb f2. do_lookup ex_once 1 ''hello'' (ex_sys (Inr 10) (Inr ex_stat) None) =
        Inr (0, eb, f2) \<and>
      e_ino eb = 4096 \<and> e_generation eb = 0 \<and> inodes f2 42 = Some 4096 \<and>
      10 \<notin> open_fds f2 \<and>
      heap f2 4096 = Some (ex_rec\<lparr>nlookup := 2\<rparr>) \<and>
      (\<exists>f3 f4. forget_one f2 4096 1 = Inr f3 \<and> forget_one f3 4096 1 = Inr f4 \<and>
         heap f4 4096 = None \<and> inodes f4 42 = None)) \<and>
   do_lookup (ex_counted 2) 1 ''hello'' (ex_sys (Inr 9) (Inr ex_stat) None) =
     Inr (0, ex_e, ex_counted 3) \<and>
   table_resident (ex_counted 3) 4096 (ex_inode\<lparr>nlookup := 3\<rparr>) \<and>
   do_lookup (ex_counted 3) 1 ''hello'' (ex_sys (Inr 10) (Inr ex_stat) None) =
     Inr (0, ex_e, ex_counted 4) \<and>
   heap (ex_counted 4) 4096 = Some (ex_inode\<lparr>nlookup := 4\<rparr>) \<and>
   (\<exists>f3 f4. forget_one (ex_counted 4) 4096 1 = Inr f3 \<and> forget_one f3 4096 1 = Inr f4 \<and>
      heap f4 4096 = Some (ex_inode\<lparr>nlookup := 2\<rparr>) \<and> inodes f4 42 = Some 4096)"
proof -
  let ?sys1 = "ex_sys (Inr 9) (Inr ex_stat) (Some 4096)"
  let ?sys2 = "ex_sys (Inr 10) (Inr ex_stat) None"
  have p1: "ino_to_fd ex_empty 1 = Some 3"
    by (simp add: ino_to_fd_def ino_to_inodeptr_def ex_empty_def FUSE_ROOT_ID_def)
  have o1: "sys_openat ?sys1 3 ''hello'' (O_PATH OR O_NOFOLLOW) = Inr 9"
    by (simp add: ex_sys_def)
  have s1: "sys_fstatat ?sys1 9 = Inr ex_stat"
    by (simp add: ex_sys_def)
  note ok1 = ex_first_lookup
  have p2: "ino_to_fd ex_once 1 = Some 3"
    by (simp add: ino_to_fd_def ino_to_inodeptr_def ex_once_def ex_empty_def FUSE_ROOT_ID_def)
  have o2: "sys_openat ?sys2 3 ''hello'' (O_PATH OR O_NOFOLLOW) = Inr 10"
    by (simp add: ex_sys_def)
  have s2: "sys_fstatat ?sys2 10 = Inr ex_stat"
    by (simp add: ex_sys_def)
  have res: "table_resident ex_once (e_ino ex_e) ex_rec"
    by (simp add: table_resident_def ex_once_def ex_e_def ex_rec_def FUSE_ROOT_ID_def)
  have live: "0 < fd ex_rec" and one: "nlookup ex_rec = 1" and key: "src_ino ex_rec = 42"
    by (simp_all add: ex_rec_def)
  have a: "e_ino ex_e = 4096" and g: "e_generation ex_e = 0" and k: "st_ino ex_stat = 42"
    by (simp_all add: ex_e_def ex_stat_def)
  have "\<exists>eb f2. do_lookup ex_once 1 ''hello'' ?sys2 = Inr (0, eb, f2)"
    by (simp add: do_lookup_def Let_def inode_table_getsert_def ex_once_def ex_empty_def
        ex_sys_def ex_stat_def ex_rec_def ino_to_fd_def ino_to_inodeptr_def FUSE_ROOT_ID_def)
  then obtain eb f2 where ok2: "do_lookup ex_once 1 ''hello'' ?sys2 = Inr (0, eb, f2)"
    by blast
  from lookup_twice_forget_twice [OF p1 o1 s1 ok1 p2 o2 s2 ok2 refl res live]
  have "e_ino eb = 4096 \<and> e_generation eb = 0 \<and> inodes f2 42 = Some 4096 \<and>
      10 \<notin> open_fds f2 \<and>
      heap f2 4096 = Some (ex_rec\<lparr>nlookup := 2\<rparr>) \<and>
      (\<exists>f3 f4. forget_one f2 4096 1 = Inr f3 \<and> forget_one f3 4096 1 = Inr f4 \<and>
         heap f4 4096 = None \<and> inodes f4 42 = None)"
    by (simp add: a g one key k)
  with ok2 ok1 res live one a have fresh: "do_lookup ex_empty 1 ''hello'' ?sys1 = Inr (0, ex_e, ex_once) \<and>
      table_resident ex_once 4096 ex_rec \<and> 0 < fd ex_rec \<and> nlookup ex_rec = 1 \<and>
      (\<exists>eb f2. do_lookup ex_once 1 ''hello'' ?sys2 = Inr (0, eb, f2) \<and>
         e_ino eb = 4096 \<and> e_generation eb = 0 \<and> inodes f2 42 = Some 4096 \<and>
         10 \<notin> open_fds f2 \<and>
         heap f2 4096 = Some (ex_rec\<lparr>nlookup := 2\<rparr>) \<and>
         (\<exists>f3 f4. forget_one f2 4096 1 = Inr f3 \<and> forget_one f3 4096 1 = Inr f4 \<and>
            heap f4 4096 = None \<and> inodes f4 42 = None))"
    by auto
  let ?i3 = "ex_inode\<lparr>nlookup := 3\<rparr>"
  have q1: "ino_to_fd (ex_counted 2) 1 = Some 3" and q2: "ino_to_fd (ex_counted 3) 1 = Some 3"
    by (simp_all add: ino_to_fd_def ino_to_inodeptr_def ex_counted_def ex_fuser_def
        FUSE_ROOT_ID_def)
  have o1': "sys_openat (ex_sys (Inr 9) (Inr ex_stat) None) 3 ''hello'' (O_PATH OR O_NOFOLLOW) = Inr 9"
    and s1': "sys_fstatat (ex_sys (Inr 9) (Inr ex_stat) None) 9 = Inr ex_stat"
    by (simp_all add: ex_sys_def)
  note c1 = ex_counted_lookup(1) [of 2, simplified]
  note c2 = ex_counted_lookup(2) [of 3, simplified]
  have res3: "table_resident (ex_counted 3) (e_ino ex_e) ?i3"
    by (simp add: table_resident_def ex_counted_def ex_fuser_def ex_e_def ex_inode_def
        FUSE_ROOT_ID_def)
  have live3: "0 < fd ?i3" and more: "1 < nlookup ?i3 \<and> nlookup ?i3 + 1 \<noteq> 0"
    and key3: "src_ino ?i3 = 42"
    by (simp_all add: ex_inode_def)
  from lookup_twice_forget_twice [OF q1 o1' s1' c1 q2 o2 s2 c2 refl res3 live3] more
  have "heap (ex_counted 4) 4096 = Some (ex_inode\<lparr>nlookup := 4\<rparr>) \<and>
      (\<exists>f3 f4. forget_one (ex_counted 4) 4096 1 = Inr f3 \<and> forget_one f3 4096 1 = Inr f4 \<and>
         heap f4 4096 = Some (ex_inode\<lparr>nlookup := 2\<rparr>) \<and> inodes f4 42 = Some 4096)"
    by (simp add: a key3)
  with fresh c1 c2 res3 a show ?thesis
    by simp
qed

section \<open>Properties of directory reading\<close>

lemma readdir_entry_no_room:
  assumes entry: "rd_result s = Inr entry"
    and nd: "\<not> is_dot_or_dotdot (d_name entry)"
    and full: "rd_written s = 0"
    and look: "do_lookup (rs_f st) ino (d_name entry) (rd_lookup s) = Inr (0, e, f1)"
    and forget: "forget_one f1 (e_ino e) 1 = Inr f2"
  shows "readdir_loop True ino (s # ss) st =
           Inr (0, st\<lparr>rs_d := (rs_d st)\<lparr>offset := d_off entry\<rparr>, rs_f := f2\<rparr>)"
  using assms by (simp add: readdir_entry_def Let_def)

text \<open>
  C7. During readdirplus, at any point of the loop: when the lookup of an entry has
  succeeded and the encoder reports no room for it (it returns 0), the handler stops
  writing (the buffer, \<^verbatim>\<open>rem\<close> and the rest of the stream are left alone) and leaves
  the loop with a forget of one lookup of that entry's inode. A record that the lookup had
  freshly created is erased again, and the lookup count of a record that was in the table
  before (with a positive count below the maximum) is what it was, the index unchanged.
\<close>

theorem readdirplus_no_room_forgets:
  assumes entry: "rd_result s = Inr entry"
    and nd: "\<not> is_dot_or_dotdot (d_name entry)"
    and full: "rd_written s = 0"
    and p: "ino_to_fd (rs_f st) ino = Some pfd"
    and o: "sys_openat (rd_lookup s) pfd (d_name entry) (O_PATH OR O_NOFOLLOW) = Inr newfd"
    and s: "sys_fstatat (rd_lookup s) newfd = Inr stt"
    and dev: "st_dev stt = root_src_dev (rs_f st)"
    and nroot: "st_ino stt \<noteq> FUSE_ROOT_ID"
    and free: "\<not> m_locked (rs_f st)"
  shows "(inodes (rs_f st) (st_ino stt) = None \<and> sys_alloc (rd_lookup s) = Some a \<and>
          a \<noteq> FUSE_ROOT_ID \<longrightarrow>
            (\<exists>f'. readdir_loop True ino (s # ss) st =
                    Inr (0, st\<lparr>rs_d := (rs_d st)\<lparr>offset := d_off entry\<rparr>, rs_f := f'\<rparr>) \<and>
                  inodes f' (st_ino stt) = None \<and> heap f' a = None)) \<and>
         (inodes (rs_f st) (st_ino stt) = Some a \<and> heap (rs_f st) a = Some i \<and>
          a \<noteq> FUSE_ROOT_ID \<and> nlookup i \<noteq> 0 \<and> nlookup i + 1 \<noteq> 0 \<longrightarrow>
            (\<exists>f'. readdir_loop True ino (s # ss) st =
                    Inr (0, st\<lparr>rs_d := (rs_d st)\<lparr>offset := d_off entry\<rparr>, rs_f := f'\<rparr>) \<and>
                  map_option nlookup (heap f' a) = Some (nlookup i) \<and>
                  inodes f' = inodes (rs_f st)))"
proof (intro conjI impI)
  let ?f = "rs_f st" and ?k = "st_ino stt"
  assume "inodes ?f ?k = None \<and> sys_alloc (rd_lookup s) = Some a \<and> a \<noteq> FUSE_ROOT_ID"
  then have absent: "inodes ?f ?k = None" and al: "sys_alloc (rd_lookup s) = Some a"
    and nr: "a \<noteq> FUSE_ROOT_ID"
    by simp_all
  let ?r = "\<lparr>src_ino = ?k, src_dev = st_dev stt, fd = newfd, nlookup = 1, nopen = 0,
             generation = 0\<rparr>"
  let ?f1 = "?f\<lparr>inodes := (inodes ?f)(?k \<mapsto> a), heap := (heap ?f)(a \<mapsto> ?r),
                open_fds := insert newfd (open_fds ?f)\<rparr>"
  let ?e = "zero_entry\<lparr>e_attr_timeout := timeout ?f, e_entry_timeout := timeout ?f,
                       e_attr := stt, e_ino := a, e_generation := 0\<rparr>"
  let ?f2 = "?f1\<lparr>inodes := (inodes ?f1)(src_ino ?r := None), heap := (heap ?f1)(a := None)\<rparr>"
  have look: "do_lookup ?f ino (d_name entry) (rd_lookup s) = Inr (0, ?e, ?f1)"
    by (rule do_lookup_fresh [OF p o s dev nroot free absent al])
  have "forget_one ?f1 a 1 = Inr ?f2"
    by (rule forget_one_erase [OF nr]) (simp_all add: free)
  then have forget: "forget_one ?f1 (e_ino ?e) 1 = Inr ?f2"
    by simp
  have "inodes ?f2 ?k = None \<and> heap ?f2 a = None"
    by simp
  with readdir_entry_no_room [OF entry nd full look forget, of ss]
  show "\<exists>f'. readdir_loop True ino (s # ss) st =
          Inr (0, st\<lparr>rs_d := (rs_d st)\<lparr>offset := d_off entry\<rparr>, rs_f := f'\<rparr>) \<and>
        inodes f' ?k = None \<and> heap f' a = None"
    by blast
next
  let ?f = "rs_f st" and ?k = "st_ino stt"
  assume "inodes ?f ?k = Some a \<and> heap ?f a = Some i \<and> a \<noteq> FUSE_ROOT_ID \<and>
    nlookup i \<noteq> 0 \<and> nlookup i + 1 \<noteq> 0"
  then have idx: "inodes ?f ?k = Some a" and rec: "heap ?f a = Some i"
    and nr: "a \<noteq> FUSE_ROOT_ID" and pos: "nlookup i \<noteq> 0" and nov: "nlookup i + 1 \<noteq> 0"
    by simp_all
  from pos nov have lt: "1 < nlookup i + 1"
    by (rule word_one_less_succ)
  let ?e = "zero_entry\<lparr>e_attr_timeout := timeout ?f, e_entry_timeout := timeout ?f,
                       e_attr := stt, e_ino := a, e_generation := generation i\<rparr>"
  have "\<exists>i' f1. do_lookup ?f ino (d_name entry) (rd_lookup s) = Inr (0, ?e, f1) \<and>
      heap f1 a = Some i' \<and> nlookup i' = nlookup i + 1 \<and> inodes f1 = inodes ?f"
  proof (cases "0 < fd i")
    case True
    show ?thesis
      by (simp add: do_lookup_live [OF p o s dev nroot free idx rec True])
  next
    case False
    show ?thesis
      by (simp add: do_lookup_adopt [OF p o s dev nroot free idx rec False])
  qed
  then obtain i' f1 where look: "do_lookup ?f ino (d_name entry) (rd_lookup s) = Inr (0, ?e, f1)"
    and h1: "heap f1 a = Some i'" and n1: "nlookup i' = nlookup i + 1"
    and t1: "inodes f1 = inodes ?f"
    by blast
  let ?f2 = "f1\<lparr>heap := (heap f1)(a \<mapsto> i'\<lparr>nlookup := nlookup i' - 1\<rparr>)\<rparr>"
  from lt n1 have "1 < nlookup i'"
    by simp
  from forget_one_keep [OF nr h1 this]
  have forget: "forget_one f1 (e_ino ?e) 1 = Inr ?f2"
    by simp
  have "map_option nlookup (heap ?f2 a) = Some (nlookup i) \<and> inodes ?f2 = inodes ?f"
    by (simp add: n1 t1)
  with readdir_entry_no_room [OF entry nd full look forget, of ss]
  show "\<exists>f'. readdir_loop True ino (s # ss) st =
          Inr (0, st\<lparr>rs_d := (rs_d st)\<lparr>offset := d_off entry\<rparr>, rs_f := f'\<rparr>) \<and>
        map_option nlookup (heap f' a) = Some (nlookup i) \<and> inodes f' = inodes ?f"
    by blast
qed

theorem readdirplus_no_room_forgets_witness:
  "(\<exists>f'. readdir_loop True 1 [ex_step (Some 4096) 0, ex_fail] (ex_rs ex_empty) =
           Inr (0, (ex_rs ex_empty)\<lparr>rs_d := \<lparr>offset = 1\<rparr>, rs_f := f'\<rparr>) \<and>
         inodes f' 42 = None \<and> heap f' 4096 = None) \<and>
   (\<exists>f'. readdir_loop True 1 [ex_step None 0, ex_fail] (ex_rs ex_once) =
           Inr (0, (ex_rs ex_once)\<lparr>rs_d := \<lparr>offset = 1\<rparr>, rs_f := f'\<rparr>) \<and>
         map_option nlookup (heap f' 4096) = Some 1 \<and> inodes f' = inodes ex_once)"
proof -
  have entry: "rd_result (ex_step a 0) = Inr ex_dirent" for a
    by (simp add: ex_step_def)
  have nd: "\<not> is_dot_or_dotdot (d_name ex_dirent)"
    by (simp add: is_dot_or_dotdot_def ex_dirent_def)
  have full: "rd_written (ex_step a 0) = 0" for a
    by (simp add: ex_step_def)
  have p0: "ino_to_fd (rs_f (ex_rs ex_empty)) 1 = Some 3"
    by (simp add: ino_to_fd_def ino_to_inodeptr_def ex_rs_def ex_empty_def FUSE_ROOT_ID_def)
  have p1: "ino_to_fd (rs_f (ex_rs ex_once)) 1 = Some 3"
    by (simp add: ino_to_fd_def ino_to_inodeptr_def ex_rs_def ex_once_def ex_empty_def
        FUSE_ROOT_ID_def)
  have o: "sys_openat (rd_lookup (ex_step a 0)) 3 (d_name ex_dirent) (O_PATH OR O_NOFOLLOW) = Inr 9"
    for a
    by (simp add: ex_step_def ex_sys_def)
  have s: "sys_fstatat (rd_lookup (ex_step a 0)) 9 = Inr ex_stat" for a
    by (simp add: ex_step_def ex_sys_def)
  have dev0: "st_dev ex_stat = root_src_dev (rs_f (ex_rs ex_empty))"
    and dev1: "st_dev ex_stat = root_src_dev (rs_f (ex_rs ex_once))"
    by (simp_all add: ex_stat_def ex_rs_def ex_once_def ex_empty_def)
  have nroot: "st_ino ex_stat \<noteq> FUSE_ROOT_ID"
    by (simp add: ex_stat_def FUSE_ROOT_ID_def)
  have free0: "\<not> m_locked (rs_f (ex_rs ex_empty))" and free1: "\<not> m_locked (rs_f (ex_rs ex_once))"
    by (simp_all add: ex_rs_def ex_once_def ex_empty_def)
  have fresh: "inodes (rs_f (ex_rs ex_empty)) (st_ino ex_stat) = None \<and>
      sys_alloc (rd_lookup (ex_step (Some 4096) 0)) = Some 4096 \<and> 4096 \<noteq> FUSE_ROOT_ID"
    by (simp add: ex_rs_def ex_empty_def ex_step_def ex_sys_def FUSE_ROOT_ID_def)
  have there: "inodes (rs_f (ex_rs ex_once)) (st_ino ex_stat) = Some 4096 \<and>
      heap (rs_f (ex_rs ex_once)) 4096 = Some ex_rec \<and> 4096 \<noteq> FUSE_ROOT_ID \<and>
      nlookup ex_rec \<noteq> 0 \<and> nlookup ex_rec + 1 \<noteq> 0"
    by (simp add: ex_rs_def ex_once_def ex_stat_def ex_rec_def FUSE_ROOT_ID_def)
  have v: "st_ino ex_stat = 42" "d_off ex_dirent = 1" "nlookup ex_rec = 1"
    "rs_d (ex_rs ex_empty) = \<lparr>offset = 0\<rparr>" "rs_d (ex_rs ex_once) = \<lparr>offset = 0\<rparr>"
    "rs_f (ex_rs ex_once) = ex_once"
    by (simp_all add: ex_stat_def ex_dirent_def ex_rec_def ex_rs_def)
  from readdirplus_no_room_forgets [OF entry nd full p0 o s dev0 nroot free0,
      of "Some 4096" 4096 "[ex_fail]" ex_rec] fresh
  have a: "\<exists>f'. readdir_loop True 1 [ex_step (Some 4096) 0, ex_fail] (ex_rs ex_empty) =
           Inr (0, (ex_rs ex_empty)\<lparr>rs_d := \<lparr>offset = 1\<rparr>, rs_f := f'\<rparr>) \<and>
         inodes f' 42 = None \<and> heap f' 4096 = None"
    by (simp add: v)
  from readdirplus_no_room_forgets [OF entry nd full p1 o s dev1 nroot free1,
      of None 4096 "[ex_fail]" ex_rec] there
  have b: "\<exists>f'. readdir_loop True 1 [ex_step None 0, ex_fail] (ex_rs ex_once) =
           Inr (0, (ex_rs ex_once)\<lparr>rs_d := \<lparr>offset = 1\<rparr>, rs_f := f'\<rparr>) \<and>
         map_option nlookup (heap f' 4096) = Some 1 \<and> inodes f' = inodes ex_once"
    by (simp add: v)
  from a b show ?thesis
    by blast
qed

text \<open>
  A lookup that reaches the table succeeds when the slot is there or can be allocated,
  and touches the index only at its backing inode and the records only at its address.
\<close>

lemma lookup_reaches_unique:
  assumes "lookup_reaches dev sys name k" and "lookup_reaches dev sys name k'"
  shows "k' = k"
proof -
  from assms(1) obtain newfd st
    where o: "sys_openat sys 0 name (O_PATH OR O_NOFOLLOW) = Inr newfd"
      and s: "sys_fstatat sys newfd = Inr st" and k: "st_ino st = k"
    unfolding lookup_reaches_def by blast
  from assms(2) obtain newfd' st'
    where o': "sys_openat sys 0 name (O_PATH OR O_NOFOLLOW) = Inr newfd'"
      and s': "sys_fstatat sys newfd' = Inr st'" and k': "st_ino st' = k'"
    unfolding lookup_reaches_def by blast
  from o o' have "newfd' = newfd"
    by simp
  with s s' have "st' = st"
    by simp
  with k k' show ?thesis
    by simp
qed

lemma do_lookup_effect:
  assumes p: "ino_to_fd f parent = Some pfd"
    and o: "sys_openat sys pfd name (O_PATH OR O_NOFOLLOW) = Inr newfd"
    and s: "sys_fstatat sys newfd = Inr st"
    and dev: "st_dev st = root_src_dev f" and nroot: "st_ino st \<noteq> FUSE_ROOT_ID"
    and free: "\<not> m_locked f"
    and slot: "inodes f (st_ino st) = Some a \<and> heap f a \<noteq> None \<or>
               inodes f (st_ino st) = None \<and> sys_alloc sys = Some a"
  shows "\<exists>e f'. do_lookup f parent name sys = Inr (0, e, f') \<and>
           inodes f' = (inodes f)(st_ino st \<mapsto> a) \<and> dom (heap f') = insert a (dom (heap f)) \<and>
           \<not> m_locked f' \<and> root_src_dev f' = root_src_dev f \<and> root f' = root f"
proof -
  from slot consider
    (live) i where "inodes f (st_ino st) = Some a" and "heap f a = Some i" and "0 < fd i"
    | (adopt) i where "inodes f (st_ino st) = Some a" and "heap f a = Some i" and "\<not> 0 < fd i"
    | (fresh) "inodes f (st_ino st) = None" and "sys_alloc sys = Some a"
    by fastforce
  then show ?thesis
  proof cases
    case live
    have "(inodes f)(st_ino st \<mapsto> a) = inodes f"
      using live(1) by (rule map_upd_triv)
    with free show ?thesis
      by (simp add: do_lookup_live [OF p o s dev nroot free live])
  next
    case adopt
    have "(inodes f)(st_ino st \<mapsto> a) = inodes f"
      using adopt(1) by (rule map_upd_triv)
    with free show ?thesis
      by (simp add: do_lookup_adopt [OF p o s dev nroot free adopt])
  next
    case fresh
    from free show ?thesis
      by (simp add: do_lookup_fresh [OF p o s dev nroot free fresh])
  qed
qed

lemma do_lookup_reaches:
  assumes reach: "lookup_reaches dev sys name k"
    and alloc: "sys_alloc sys \<noteq> None"
    and inv: "plus_inv dev ino f"
  shows "\<exists>e f'. do_lookup f ino name sys = Inr (0, e, f') \<and> plus_inv dev ino f' \<and>
           (\<forall>k'. k' \<noteq> k \<longrightarrow> inodes f' k' = inodes f k')"
proof -
  from reach obtain newfd st
    where o: "\<And>dirfd. sys_openat sys dirfd name (O_PATH OR O_NOFOLLOW) = Inr newfd"
      and s: "sys_fstatat sys newfd = Inr st" and dev: "st_dev st = dev"
      and k: "st_ino st = k" and nroot: "st_ino st \<noteq> FUSE_ROOT_ID"
    by (auto simp: lookup_reaches_def)
  from inv have known: "ino_to_inodeptr f ino \<noteq> None" and free: "\<not> m_locked f"
    and tab: "ran (inodes f) \<subseteq> dom (heap f)" and rdev: "root_src_dev f = dev"
    by (simp_all add: plus_inv_def)
  from known obtain pfd where p: "ino_to_fd f ino = Some pfd"
    by (auto simp: ino_to_fd_def)
  from dev rdev have sdev: "st_dev st = root_src_dev f"
    by simp
  have "\<exists>a. inodes f (st_ino st) = Some a \<and> heap f a \<noteq> None \<or>
      inodes f (st_ino st) = None \<and> sys_alloc sys = Some a"
  proof (cases "inodes f (st_ino st)")
    case None
    with alloc show ?thesis
      by auto
  next
    case (Some a)
    then have "a \<in> ran (inodes f)"
      by (rule ranI)
    with tab have "heap f a \<noteq> None"
      by auto
    with Some show ?thesis
      by auto
  qed
  then obtain a where slot: "inodes f (st_ino st) = Some a \<and> heap f a \<noteq> None \<or>
      inodes f (st_ino st) = None \<and> sys_alloc sys = Some a"
    by blast
  from do_lookup_effect [OF p o s sdev nroot free slot]
  obtain e f' where run: "do_lookup f ino name sys = Inr (0, e, f')"
    and t: "inodes f' = (inodes f)(st_ino st \<mapsto> a)"
    and h: "dom (heap f') = insert a (dom (heap f))"
    and m: "\<not> m_locked f'" and d: "root_src_dev f' = root_src_dev f" and rt: "root f' = root f"
    by blast
  have "ran ((inodes f)(st_ino st \<mapsto> a)) \<subseteq> insert a (ran (inodes f))"
    by (auto simp: ran_def)
  with tab have tab': "ran (inodes f') \<subseteq> dom (heap f')"
    by (auto simp: t h)
  from h have "dom (heap f) \<subseteq> dom (heap f')"
    by auto
  with known have known': "ino_to_inodeptr f' ino \<noteq> None"
    by (auto simp: ino_to_inodeptr_def split: if_splits)
  from known' m tab' d rdev have "plus_inv dev ino f'"
    by (simp add: plus_inv_def)
  moreover have "\<forall>k'. k' \<noteq> k \<longrightarrow> inodes f' k' = inodes f k'"
    by (simp add: t k)
  ultimately show ?thesis
    using run by blast
qed

lemma do_lookup_fails:
  assumes fails: "lookup_fails dev sys name err"
    and known: "ino_to_inodeptr f ino \<noteq> None"
    and rdev: "root_src_dev f = dev"
  shows "\<exists>e f'. do_lookup f ino name sys = Inr (err, e, f')"
proof -
  from known obtain pfd where p: "ino_to_fd f ino = Some pfd"
    by (auto simp: ino_to_fd_def)
  from fails consider
    (openat) "sys_openat sys pfd name (O_PATH OR O_NOFOLLOW) = Inl err"
    | (fstatat) newfd where "sys_openat sys pfd name (O_PATH OR O_NOFOLLOW) = Inr newfd"
        and "sys_fstatat sys newfd = Inl err"
    | (dev) newfd st where "sys_openat sys pfd name (O_PATH OR O_NOFOLLOW) = Inr newfd"
        and "sys_fstatat sys newfd = Inr st" and "st_dev st \<noteq> dev" and "err = ENOTSUP"
    | (root) newfd st where "sys_openat sys pfd name (O_PATH OR O_NOFOLLOW) = Inr newfd"
        and "sys_fstatat sys newfd = Inr st" and "st_dev st = dev"
        and "st_ino st = FUSE_ROOT_ID" and "err = EIO"
    unfolding lookup_fails_def by blast
  then show ?thesis
  proof cases
    case openat
    with p show ?thesis
      by (simp add: do_lookup_def Let_def)
  next
    case fstatat
    with p show ?thesis
      by (simp add: do_lookup_def Let_def)
  next
    case dev
    with p rdev show ?thesis
      by (simp add: do_lookup_def Let_def)
  next
    case root
    with p rdev show ?thesis
      by (simp add: do_lookup_def Let_def)
  qed
qed

lemma do_lookup_nomem:
  assumes reach: "lookup_reaches dev sys name k"
    and alloc: "sys_alloc sys = None"
    and absent: "inodes f k = None"
    and inv: "plus_inv dev ino f"
  shows "\<exists>e f'. do_lookup f ino name sys = Inr (ENOMEM, e, f')"
proof -
  from reach obtain newfd st
    where o: "\<And>dirfd. sys_openat sys dirfd name (O_PATH OR O_NOFOLLOW) = Inr newfd"
      and s: "sys_fstatat sys newfd = Inr st" and dev: "st_dev st = dev"
      and k: "st_ino st = k" and nroot: "st_ino st \<noteq> FUSE_ROOT_ID"
    by (auto simp: lookup_reaches_def)
  from inv have known: "ino_to_inodeptr f ino \<noteq> None" and free: "\<not> m_locked f"
    and rdev: "root_src_dev f = dev"
    by (simp_all add: plus_inv_def)
  from known obtain pfd where p: "ino_to_fd f ino = Some pfd"
    by (auto simp: ino_to_fd_def)
  from p o [of pfd] s dev rdev nroot free k absent alloc show ?thesis
    by (simp add: do_lookup_def Let_def inode_table_getsert_def)
qed

text \<open>
  The loop over accepted steps: \<^verbatim>\<open>rem\<close> goes down by their bytes and the buffer grows by
  the written ones, in order.
\<close>

lemma stream_bytes_Cons: "stream_bytes (s # ss) = stream_bytes [s] + stream_bytes ss"
  by (simp add: stream_bytes_def written_entries_def)

lemma written_entries_Cons: "written_entries (s # ss) = written_entries [s] @ written_entries ss"
  by (simp add: written_entries_def)

lemma readdir_entry_accepted:
  assumes acc: "accepted p dev s"
    and inv: "p \<Longrightarrow> plus_inv dev ino (rs_f st)"
  shows "\<exists>st'. readdir_entry p ino s st = Continue st' \<and>
           (p \<longrightarrow> plus_inv dev ino (rs_f st')) \<and>
           rs_rem st' = rs_rem st - of_nat (stream_bytes [s]) \<and>
           map de_size (rs_iov st') = map de_size (rs_iov st) @ map rd_written (written_entries [s]) \<and>
           map de_name (rs_iov st') = map de_name (rs_iov st) @ map step_name (written_entries [s]) \<and>
           (\<forall>k. \<not> resolves_to dev s k \<longrightarrow> inodes (rs_f st') k = inodes (rs_f st) k)"
proof -
  from acc obtain entry where ent: "rd_result s = Inr entry"
    by (auto simp: accepted_def split: sum.splits)
  show ?thesis
  proof (cases "is_dot_or_dotdot (d_name entry)")
    case True
    with ent inv show ?thesis
      by (simp add: readdir_entry_def Let_def stream_bytes_def written_entries_def is_written_def)
  next
    case False
    with acc ent have w: "rd_written s \<noteq> 0"
      by (simp add: accepted_def)
    from False ent have wr: "stream_bytes [s] = unat (rd_written s)"
      "written_entries [s] = [s]" "step_name s = d_name entry"
      by (simp_all add: stream_bytes_def written_entries_def is_written_def step_name_def)
    show ?thesis
    proof (cases p)
      case False
      with ent \<open>\<not> is_dot_or_dotdot (d_name entry)\<close> w show ?thesis
        by (simp add: readdir_entry_def Let_def wr)
    next
      case True
      with acc ent \<open>\<not> is_dot_or_dotdot (d_name entry)\<close>
      obtain k where reach: "lookup_reaches dev (rd_lookup s) (d_name entry) k"
        and al: "sys_alloc (rd_lookup s) \<noteq> None"
        by (auto simp: accepted_def)
      from True have "plus_inv dev ino (rs_f st)"
        by (rule inv)
      from do_lookup_reaches [OF reach al this]
      obtain e f' where run: "do_lookup (rs_f st) ino (d_name entry) (rd_lookup s) = Inr (0, e, f')"
        and inv': "plus_inv dev ino f'"
        and oth: "\<forall>k'. k' \<noteq> k \<longrightarrow> inodes f' k' = inodes (rs_f st) k'"
        by blast
      have "inodes f' k' = inodes (rs_f st) k'" if "\<not> resolves_to dev s k'" for k'
      proof -
        from that ent reach have "k' \<noteq> k"
          by (auto simp: resolves_to_def)
        with oth show ?thesis
          by simp
      qed
      with True ent \<open>\<not> is_dot_or_dotdot (d_name entry)\<close> w run inv' show ?thesis
        by (simp add: readdir_entry_def Let_def wr)
    qed
  qed
qed

lemma readdir_loop_accepted:
  assumes "list_all (accepted p dev) goods"
    and "p \<Longrightarrow> plus_inv dev ino (rs_f st)"
  shows "\<exists>st'. readdir_loop p ino (goods @ tail) st = readdir_loop p ino tail st' \<and>
           (p \<longrightarrow> plus_inv dev ino (rs_f st')) \<and>
           rs_rem st' = rs_rem st - of_nat (stream_bytes goods) \<and>
           map de_size (rs_iov st') = map de_size (rs_iov st) @ map rd_written (written_entries goods) \<and>
           map de_name (rs_iov st') = map de_name (rs_iov st) @ map step_name (written_entries goods) \<and>
           (\<forall>k. list_all (\<lambda>s. \<not> resolves_to dev s k) goods \<longrightarrow>
                inodes (rs_f st') k = inodes (rs_f st) k)"
  using assms
proof (induction goods arbitrary: st)
  case Nil
  from Nil.prems(2) have "p \<longrightarrow> plus_inv dev ino (rs_f st)"
    by simp
  then have "readdir_loop p ino ([] @ tail) st = readdir_loop p ino tail st \<and>
      (p \<longrightarrow> plus_inv dev ino (rs_f st)) \<and>
      rs_rem st = rs_rem st - of_nat (stream_bytes []) \<and>
      map de_size (rs_iov st) = map de_size (rs_iov st) @ map rd_written (written_entries []) \<and>
      map de_name (rs_iov st) = map de_name (rs_iov st) @ map step_name (written_entries []) \<and>
      (\<forall>k. list_all (\<lambda>s. \<not> resolves_to dev s k) [] \<longrightarrow>
           inodes (rs_f st) k = inodes (rs_f st) k)"
    by (simp add: stream_bytes_def written_entries_def)
  then show ?case
    by (rule exI)
next
  case (Cons s goods)
  from Cons.prems(1) have acc: "accepted p dev s" and rest: "list_all (accepted p dev) goods"
    by simp_all
  from readdir_entry_accepted [OF acc Cons.prems(2)]
  obtain st1 where step: "readdir_entry p ino s st = Continue st1"
    and inv1: "p \<longrightarrow> plus_inv dev ino (rs_f st1)"
    and rem1: "rs_rem st1 = rs_rem st - of_nat (stream_bytes [s])"
    and sz1: "map de_size (rs_iov st1) = map de_size (rs_iov st) @ map rd_written (written_entries [s])"
    and nm1: "map de_name (rs_iov st1) = map de_name (rs_iov st) @ map step_name (written_entries [s])"
    and tb1: "\<forall>k. \<not> resolves_to dev s k \<longrightarrow> inodes (rs_f st1) k = inodes (rs_f st) k"
    by blast
  from inv1 have "p \<Longrightarrow> plus_inv dev ino (rs_f st1)"
    by simp
  from Cons.IH [OF rest this]
  obtain st' where run: "readdir_loop p ino (goods @ tail) st1 = readdir_loop p ino tail st'"
    and inv': "p \<longrightarrow> plus_inv dev ino (rs_f st')"
    and rem': "rs_rem st' = rs_rem st1 - of_nat (stream_bytes goods)"
    and sz': "map de_size (rs_iov st') = map de_size (rs_iov st1) @ map rd_written (written_entries goods)"
    and nm': "map de_name (rs_iov st') = map de_name (rs_iov st1) @ map step_name (written_entries goods)"
    and tb': "\<forall>k. list_all (\<lambda>s. \<not> resolves_to dev s k) goods \<longrightarrow>
        inodes (rs_f st') k = inodes (rs_f st1) k"
    by blast
  have a: "readdir_loop p ino ((s # goods) @ tail) st = readdir_loop p ino tail st'"
    using step run by simp
  have b: "rs_rem st' = rs_rem st - of_nat (stream_bytes (s # goods))"
    by (simp add: rem' rem1 stream_bytes_Cons [of s goods])
  have c: "map de_size (rs_iov st') =
      map de_size (rs_iov st) @ map rd_written (written_entries (s # goods))"
    by (simp add: sz' sz1 written_entries_Cons [of s goods])
  have d: "map de_name (rs_iov st') =
      map de_name (rs_iov st) @ map step_name (written_entries (s # goods))"
    by (simp add: nm' nm1 written_entries_Cons [of s goods])
  have e: "\<forall>k. list_all (\<lambda>s. \<not> resolves_to dev s k) (s # goods) \<longrightarrow>
      inodes (rs_f st') k = inodes (rs_f st) k"
    using tb1 tb' by simp
  from a inv' b c d e show ?case
    by blast
qed

lemma readdir_entry_failing:
  assumes fl: "failing p f goods bad err"
    and inv: "p \<Longrightarrow> plus_inv (root_src_dev f) ino (rs_f st)"
    and tb: "\<forall>k. list_all (\<lambda>s. \<not> resolves_to (root_src_dev f) s k) goods \<longrightarrow>
        inodes (rs_f st) k = inodes f k"
  shows "\<exists>st'. readdir_entry p ino bad st = Leave err st' \<and> rs_rem st' = rs_rem st \<and>
           rs_iov st' = rs_iov st"
proof -
  let ?dev = "root_src_dev f"
  from fl have nz: "err \<noteq> 0"
    by (simp add: failing_def)
  from fl consider
    (readdir) "rd_result bad = Inl err"
    | (lookup) entry where "p" and "rd_result bad = Inr entry"
        and "\<not> is_dot_or_dotdot (d_name entry)"
        and "lookup_fails ?dev (rd_lookup bad) (d_name entry) err"
    | (nomem) entry k where "p" and "rd_result bad = Inr entry"
        and "\<not> is_dot_or_dotdot (d_name entry)" and "err = ENOMEM"
        and "sys_alloc (rd_lookup bad) = None"
        and "lookup_reaches ?dev (rd_lookup bad) (d_name entry) k"
        and "inodes f k = None" and "list_all (\<lambda>s. \<not> resolves_to ?dev s k) goods"
    unfolding failing_def by blast
  then show ?thesis
  proof cases
    case readdir
    with nz show ?thesis
      by (simp add: readdir_entry_def)
  next
    case lookup
    from inv [OF lookup(1)] have known: "ino_to_inodeptr (rs_f st) ino \<noteq> None"
      and rdev: "root_src_dev (rs_f st) = ?dev"
      by (simp_all add: plus_inv_def)
    from do_lookup_fails [OF lookup(4) known rdev]
    obtain e f' where "do_lookup (rs_f st) ino (d_name entry) (rd_lookup bad) = Inr (err, e, f')"
      by blast
    with lookup(1-3) nz show ?thesis
      by (simp add: readdir_entry_def Let_def)
  next
    case nomem
    from tb nomem(7,8) have "inodes (rs_f st) k = None"
      by simp
    from do_lookup_nomem [OF nomem(6) nomem(5) this inv [OF nomem(1)]]
    obtain e f' where "do_lookup (rs_f st) ino (d_name entry) (rd_lookup bad) = Inr (ENOMEM, e, f')"
      by blast
    with nomem(1-4) nz show ?thesis
      by (simp add: readdir_entry_def Let_def)
  qed
qed

lemma stream_bytes_zero:
  assumes "list_all (accepted p dev) goods"
  shows "stream_bytes goods = 0 \<longleftrightarrow> written_entries goods = []"
  using assms
proof (induction goods)
  case Nil
  then show ?case
    by (simp add: stream_bytes_def written_entries_def)
next
  case (Cons s goods)
  from Cons.prems have acc: "accepted p dev s" and rest: "list_all (accepted p dev) goods"
    by simp_all
  show ?case
  proof (cases "is_written s")
    case True
    with acc have "rd_written s \<noteq> 0"
      by (auto simp: accepted_def is_written_def split: sum.splits)
    then have "unat (rd_written s) \<noteq> 0"
      by (simp add: unat_eq_0)
    with True show ?thesis
      by (simp add: stream_bytes_def written_entries_def)
  next
    case False
    with Cons.IH [OF rest] show ?thesis
      by (simp add: stream_bytes_def written_entries_def)
  qed
qed

text \<open>
  C6. In readdir and readdirplus on a known directory (with \<^verbatim>\<open>plus\<close>, the table mutex
  is free and every index entry has its record), let the stream hold accepted entries,
  then a step at which an error \<open>err\<close> occurs (\<^verbatim>\<open>readdir\<close> fails, or the lookup of an
  entry fails), then anything; the sizes that the encoder answers for the accepted entries
  total less than \<open>2 ^ 32\<close> bytes. The handler returns 0. If at least one entry has been
  written before the error, the error is not reported: the reply header keeps its
  \<open>error\<close> and its length grows by the bytes of the entries written, which are in the
  buffer in order. The negated error is placed in the reply header only when no entry has
  been written.
\<close>

theorem readdir_partial_success:
  assumes known: "ino_to_inodeptr f (nodeid in_hdr) = Some i"
    and idle: "plus_p \<Longrightarrow> \<not> m_locked f \<and> ran (inodes f) \<subseteq> dom (heap f)"
    and goods: "list_all (accepted plus_p (root_src_dev f)) goods"
    and bad: "failing plus_p f goods bad err"
    and fits: "stream_bytes goods < 2 ^ 32"
  shows "\<exists>st. fuser_mirror_readdir f in_hdr in_read plus_p out_hdr d (goods @ bad # rest) =
           Inr (0, (if written_entries goods = [] then out_hdr\<lparr>error := - err\<rparr>
                    else out_hdr\<lparr>len := len out_hdr + of_nat (stream_bytes goods)\<rparr>), st) \<and>
         map de_name (rs_iov st) = map step_name (written_entries goods) \<and>
         map de_size (rs_iov st) = map rd_written (written_entries goods)"
proof -
  let ?sz = "read_size in_read" and ?ino = "nodeid in_hdr" and ?dev = "root_src_dev f"
  let ?st0 = "\<lparr>rs_f = f,
      rs_d = (if read_offset in_read \<noteq> offset d then d\<lparr>offset := read_offset in_read\<rparr> else d),
      rs_rem = ?sz, rs_count = 0, rs_iov = []\<rparr>"
  have inv0: "plus_inv ?dev ?ino (rs_f ?st0)" if plus_p
    using idle [OF that] known by (simp add: plus_inv_def)
  from readdir_loop_accepted [OF goods inv0, of "bad # rest"]
  obtain st1 where run1: "readdir_loop plus_p ?ino (goods @ bad # rest) ?st0 =
        readdir_loop plus_p ?ino (bad # rest) st1"
    and inv1: "plus_p \<longrightarrow> plus_inv ?dev ?ino (rs_f st1)"
    and rem1: "rs_rem st1 = ?sz - of_nat (stream_bytes goods)"
    and sz1: "map de_size (rs_iov st1) = map rd_written (written_entries goods)"
    and nm1: "map de_name (rs_iov st1) = map step_name (written_entries goods)"
    and tb1: "\<forall>k. list_all (\<lambda>s. \<not> resolves_to ?dev s k) goods \<longrightarrow>
        inodes (rs_f st1) k = inodes f k"
    by auto
  from inv1 have "plus_p \<Longrightarrow> plus_inv ?dev ?ino (rs_f st1)"
    by simp
  from readdir_entry_failing [OF bad this tb1]
  obtain st2 where step: "readdir_entry plus_p ?ino bad st1 = Leave err st2"
    and rem2: "rs_rem st2 = rs_rem st1" and iov2: "rs_iov st2 = rs_iov st1"
    by blast
  from run1 step have loop: "readdir_loop plus_p ?ino (goods @ bad # rest) ?st0 = Inr (err, st2)"
    by simp
  from bad have nz: "err \<noteq> 0"
    by (simp add: failing_def)
  have "rs_rem st2 = ?sz \<longleftrightarrow> (of_nat (stream_bytes goods) :: u32) = 0"
    by (simp add: rem2 rem1)
  also have "\<dots> \<longleftrightarrow> 2 ^ 32 dvd stream_bytes goods"
    by (simp add: word_of_nat_eq_0_iff)
  also from fits have "\<dots> \<longleftrightarrow> stream_bytes goods = 0"
    by (auto dest: dvd_imp_le)
  also from goods have "\<dots> \<longleftrightarrow> written_entries goods = []"
    by (rule stream_bytes_zero)
  finally have untouched: "rs_rem st2 = ?sz \<longleftrightarrow> written_entries goods = []" .
  have "fuser_mirror_readdir f in_hdr in_read plus_p out_hdr d (goods @ bad # rest) =
      (if err \<noteq> 0 \<and> rs_rem st2 = ?sz then Inr (0, out_hdr\<lparr>error := - err\<rparr>, st2)
       else Inr (0, out_hdr\<lparr>len := len out_hdr + (?sz - rs_rem st2)\<rparr>, st2))"
    using known loop by (simp add: fuser_mirror_readdir_def Let_def)
  then have "fuser_mirror_readdir f in_hdr in_read plus_p out_hdr d (goods @ bad # rest) =
      Inr (0, (if written_entries goods = [] then out_hdr\<lparr>error := - err\<rparr>
               else out_hdr\<lparr>len := len out_hdr + of_nat (stream_bytes goods)\<rparr>), st2)"
    using nz untouched by (simp add: rem2 rem1)
  moreover have "map de_name (rs_iov st2) = map step_name (written_entries goods)"
    by (simp add: iov2 nm1)
  moreover have "map de_size (rs_iov st2) = map rd_written (written_entries goods)"
    by (simp add: iov2 sz1)
  ultimately show ?thesis
    by blast
qed

lemma ex_reaches: "lookup_reaches 7 (ex_sys (Inr 9) (Inr ex_stat) a) name 42"
  by (simp add: lookup_reaches_def ex_sys_def ex_stat_def FUSE_ROOT_ID_def)

lemma ex_steps:
  "accepted p 7 ex_dot" "\<not> is_written ex_dot"
  "accepted p 7 (ex_step (Some 4096) 32)" "is_written (ex_step a 32)"
  "accepted False 7 (ex_step a 32)"
  "rd_written (ex_step a 32) = 32" "step_name (ex_step a 32) = ''hello''"
proof -
  have "\<exists>k. lookup_reaches 7 (ex_sys (Inr 9) (Inr ex_stat) (Some 4096)) ''hello'' k"
    using ex_reaches by (rule exI)
  then show "accepted p 7 (ex_step (Some 4096) 32)"
    by (simp add: accepted_def ex_step_def ex_dirent_def ex_sys_def)
qed (simp_all add: accepted_def is_written_def step_name_def ex_dot_def ex_step_def ex_dirent_def
    is_dot_or_dotdot_def)

lemma ex_failures:
  "failing True ex_empty goods ex_denied EACCES"
  "failing p ex_empty goods ex_fail EIO"
  by (simp_all add: failing_def lookup_fails_def ex_denied_def ex_fail_def ex_sys_def
      is_dot_or_dotdot_def EACCES_def EIO_def)

theorem readdir_partial_success_witness:
  "(\<exists>st. fuser_mirror_readdir ex_empty \<lparr>nodeid = 1\<rparr> ex_read_in True ex_hdr \<lparr>offset = 0\<rparr>
            ([ex_dot, ex_step (Some 4096) 32] @ ex_denied # [ex_fail]) =
          Inr (0, ex_hdr\<lparr>len := 48\<rparr>, st) \<and>
        map de_name (rs_iov st) = [''hello''] \<and> map de_size (rs_iov st) = [32]) \<and>
   (\<exists>st. fuser_mirror_readdir ex_empty \<lparr>nodeid = 1\<rparr> ex_read_in True ex_hdr \<lparr>offset = 0\<rparr>
            ([ex_dot] @ ex_denied # [ex_step (Some 4096) 32]) =
          Inr (0, ex_hdr\<lparr>error := - EACCES\<rparr>, st) \<and> rs_iov st = []) \<and>
   (\<exists>st. fuser_mirror_readdir ex_empty \<lparr>nodeid = 1\<rparr> ex_read_in False ex_hdr \<lparr>offset = 0\<rparr>
            ([ex_step None 32, ex_dot] @ ex_fail # []) =
          Inr (0, ex_hdr\<lparr>len := 48\<rparr>, st) \<and>
        map de_name (rs_iov st) = [''hello''] \<and> map de_size (rs_iov st) = [32])"
proof -
  have known: "ino_to_inodeptr ex_empty (nodeid \<lparr>nodeid = 1\<rparr>) = Some (root ex_empty)"
    by (simp add: ino_to_inodeptr_def FUSE_ROOT_ID_def)
  have idle: "\<not> m_locked ex_empty \<and> ran (inodes ex_empty) \<subseteq> dom (heap ex_empty)"
    by (simp add: ex_empty_def)
  have dev: "root_src_dev ex_empty = 7" and h: "len ex_hdr = 16"
    by (simp_all add: ex_empty_def ex_hdr_def)
  have g1: "list_all (accepted True (root_src_dev ex_empty)) [ex_dot, ex_step (Some 4096) 32]"
    and g2: "list_all (accepted True (root_src_dev ex_empty)) [ex_dot]"
    and g3: "list_all (accepted False (root_src_dev ex_empty)) [ex_step None 32, ex_dot]"
    by (simp_all add: dev ex_steps)
  have w1: "written_entries [ex_dot, ex_step (Some 4096) 32] = [ex_step (Some 4096) 32]"
    and w2: "written_entries [ex_dot] = []"
    and w3: "written_entries [ex_step None 32, ex_dot] = [ex_step None 32]"
    by (simp_all add: written_entries_def ex_steps)
  have b1: "stream_bytes [ex_dot, ex_step (Some 4096) 32] = 32"
    and b2: "stream_bytes [ex_dot] = 0"
    and b3: "stream_bytes [ex_step None 32, ex_dot] = 32"
    by (simp_all add: stream_bytes_def w1 w2 w3 ex_steps)
  have fits: "stream_bytes [ex_dot, ex_step (Some 4096) 32] < 2 ^ 32"
    "stream_bytes [ex_dot] < 2 ^ 32" "stream_bytes [ex_step None 32, ex_dot] < 2 ^ 32"
    by (simp_all add: b1 b2 b3)
  from readdir_partial_success [OF known idle g1 ex_failures(1) fits(1),
      of ex_read_in ex_hdr "\<lparr>offset = 0\<rparr>" "[ex_fail]"]
  have one: "\<exists>st. fuser_mirror_readdir ex_empty \<lparr>nodeid = 1\<rparr> ex_read_in True ex_hdr \<lparr>offset = 0\<rparr>
        ([ex_dot, ex_step (Some 4096) 32] @ ex_denied # [ex_fail]) =
      Inr (0, ex_hdr\<lparr>len := 48\<rparr>, st) \<and>
      map de_name (rs_iov st) = [''hello''] \<and> map de_size (rs_iov st) = [32]"
    by (simp add: w1 b1 h ex_steps)
  from readdir_partial_success [OF known idle g2 ex_failures(1) fits(2),
      of ex_read_in ex_hdr "\<lparr>offset = 0\<rparr>" "[ex_step (Some 4096) 32]"]
  have two: "\<exists>st. fuser_mirror_readdir ex_empty \<lparr>nodeid = 1\<rparr> ex_read_in True ex_hdr \<lparr>offset = 0\<rparr>
        ([ex_dot] @ ex_denied # [ex_step (Some 4096) 32]) =
      Inr (0, ex_hdr\<lparr>error := - EACCES\<rparr>, st) \<and> rs_iov st = []"
    by (simp add: w2)
  from readdir_partial_success [OF known _ g3 ex_failures(2) fits(3),
      of ex_read_in ex_hdr "\<lparr>offset = 0\<rparr>" "[]"]
  have three: "\<exists>st. fuser_mirror_readdir ex_empty \<lparr>nodeid = 1\<rparr> ex_read_in False ex_hdr \<lparr>offset = 0\<rparr>
        ([ex_step None 32, ex_dot] @ ex_fail # []) =
      Inr (0, ex_hdr\<lparr>len := 48\<rparr>, st) \<and>
      map de_name (rs_iov st) = [''hello''] \<and> map de_size (rs_iov st) = [32]"
    by (simp add: w3 b3 h ex_steps)
  from one two three show ?thesis
    by blast
qed

end
